theory Spec2Isabelle
  imports
    Complex_Main
    "HOL-Library.Sublist"
    "HOL-Library.Char_ord"
    "HOL-Library.List_Lexorder"
    "HOL-Library.Product_Lexorder"
begin

section \<open>StressEase backend: a shallow embedding\<close>

text \<open>
  The development follows the Python sources of the repository:
  \<^item> \<^verbatim>\<open>services/chat/llm_service.py\<close> (response validation, reply generation,
    context building),
  \<^item> \<^verbatim>\<open>services/chat/chat_memory_service.py\<close> (profile, history, session status),
  \<^item> \<^verbatim>\<open>services/mood/mood_service.py\<close> (daily logs, weekly aggregates),
  \<^item> \<^verbatim>\<open>services/prediction/prediction_service.py\<close> (stress prediction),
  \<^item> \<^verbatim>\<open>api/chat.py\<close>, \<^verbatim>\<open>api/mood.py\<close> (request handlers).

  Conventions. Python \<^verbatim>\<open>str\<close> is \<^typ>\<open>string\<close>, a character being a code point
  below 256; \<^verbatim>\<open>lower()\<close> and \<^verbatim>\<open>strip()\<close> are Python's on these code points. A
  raised exception is a value \<open>Inl e\<close> of a sum type. The document store,
  the models and the clock are collaborators: what one of their calls does during a
  request (return a value or raise) is a field of the record \<open>services\<close>. Python
  dictionaries are maps, Firestore collections are lists of documents. Python floats are
  modelled by exact rationals: the model computes what the source computes except where
  a double's rounding error decides a comparison with a threshold or a rounding tie.
\<close>

subsection \<open>Strings\<close>

text \<open>
  The white space of \<^verbatim>\<open>str.strip()\<close> and \<^verbatim>\<open>str.isspace()\<close> among the code points
  below 256: the ASCII control characters 9 to 13 and 28 to 31, the space, U+0085 and
  the no-break space U+00A0.
\<close>

definition is_space :: "char \<Rightarrow> bool" where
  "is_space c \<longleftrightarrow>
     c \<in> set [CHR 0x09, CHR 0x0A, CHR 0x0B, CHR 0x0C, CHR 0x0D,
               CHR 0x1C, CHR 0x1D, CHR 0x1E, CHR 0x1F, CHR 0x20, CHR 0x85, CHR 0xA0]"

text \<open>\<^verbatim>\<open>s.strip()\<close>: leading and trailing white space removed.\<close>

definition strip :: "string \<Rightarrow> string" where
  "strip s = rev (dropWhile is_space (rev (dropWhile is_space s)))"

text \<open>
  The code points below 256 that \<^verbatim>\<open>str.lower()\<close> changes, and their images: the
  letters A to Z, and U+00C0 to U+00DE without the multiplication sign U+00D7.
\<close>

definition uppercase :: string where
  "uppercase =
     ''ABCDEFGHIJKLMNOPQRSTUVWXYZ'' @
     [CHR 0xC0, CHR 0xC1, CHR 0xC2, CHR 0xC3, CHR 0xC4, CHR 0xC5, CHR 0xC6, CHR 0xC7,
      CHR 0xC8, CHR 0xC9, CHR 0xCA, CHR 0xCB, CHR 0xCC, CHR 0xCD, CHR 0xCE, CHR 0xCF,
      CHR 0xD0, CHR 0xD1, CHR 0xD2, CHR 0xD3, CHR 0xD4, CHR 0xD5, CHR 0xD6,
      CHR 0xD8, CHR 0xD9, CHR 0xDA, CHR 0xDB, CHR 0xDC, CHR 0xDD, CHR 0xDE]"

definition lowercase :: string where
  "lowercase =
     ''abcdefghijklmnopqrstuvwxyz'' @
     [CHR 0xE0, CHR 0xE1, CHR 0xE2, CHR 0xE3, CHR 0xE4, CHR 0xE5, CHR 0xE6, CHR 0xE7,
      CHR 0xE8, CHR 0xE9, CHR 0xEA, CHR 0xEB, CHR 0xEC, CHR 0xED, CHR 0xEE, CHR 0xEF,
      CHR 0xF0, CHR 0xF1, CHR 0xF2, CHR 0xF3, CHR 0xF4, CHR 0xF5, CHR 0xF6,
      CHR 0xF8, CHR 0xF9, CHR 0xFA, CHR 0xFB, CHR 0xFC, CHR 0xFD, CHR 0xFE]"

definition lower_char :: "char \<Rightarrow> char" where
  "lower_char c = (case map_of (zip uppercase lowercase) c of Some d \<Rightarrow> d | None \<Rightarrow> c)"

text \<open>\<^verbatim>\<open>s.lower()\<close>.\<close>

definition lower :: "string \<Rightarrow> string" where
  "lower s = map lower_char s"

text \<open>\<^verbatim>\<open>p in s\<close> on strings: \<open>p\<close> occurs in \<open>s\<close> as a contiguous substring.\<close>

fun str_contains :: "string \<Rightarrow> string \<Rightarrow> bool" where
  "str_contains p [] = (p = [])"
| "str_contains p (c # cs) = (prefix p (c # cs) \<or> str_contains p cs)"

subsection \<open>Numbers\<close>

text \<open>
  \<^verbatim>\<open>round(x, 2)\<close>: the nearest multiple of \<open>1/100\<close>, a tie going to the even
  hundredth.
\<close>

definition round_half_even :: "rat \<Rightarrow> int" where
  "round_half_even x =
     (let f = \<lfloor>x\<rfloor>; d = x - of_int f in
      if d < 1 / 2 then f
      else if 1 / 2 < d then f + 1
      else if even f then f else f + 1)"

definition py_round2 :: "rat \<Rightarrow> rat" where
  "py_round2 x = of_int (round_half_even (x * 100)) / 100"

subsection \<open>Exceptions and messages\<close>

datatype exn = RuntimeError | StoreError | LLMError | KeyError | ValueError | TypeError

datatype base_message = HumanMessage string | AIMessage string

text \<open>
  The value of a field of a Firestore document, as \<^verbatim>\<open>to_dict()\<close> returns it, and a
  document as the dictionary of its fields.
\<close>

datatype json =
    JNull | JBool bool | JNum int | JStr string | JList "json list"
  | JMap "(string \<times> json) list"

type_synonym document = "(string \<times> json) list"

text \<open>
  What Python takes for true in \<^verbatim>\<open>if user_profile.get(key):\<close>, and the values on
  which \<^verbatim>\<open>", ".join(value)\<close> returns: a list of strings, a string (joined character
  by character) or a map (its keys are joined). On every other value \<^verbatim>\<open>join\<close> raises
  \<^verbatim>\<open>TypeError\<close>.
\<close>

fun truthy :: "json \<Rightarrow> bool" where
  "truthy JNull = False"
| "truthy (JBool b) = b"
| "truthy (JNum n) = (n \<noteq> 0)"
| "truthy (JStr s) = (s \<noteq> [])"
| "truthy (JList xs) = (xs \<noteq> [])"
| "truthy (JMap kvs) = (kvs \<noteq> [])"

fun is_str :: "json \<Rightarrow> bool" where
  "is_str (JStr s) = True"
| "is_str v = False"

fun joinable :: "json \<Rightarrow> bool" where
  "joinable (JList xs) = list_all is_str xs"
| "joinable (JStr s) = True"
| "joinable (JMap kvs) = True"
| "joinable v = False"

text \<open>
  The conversation object (an LCEL chain) is the master prompt instantiated with the
  user context, which \<^verbatim>\<open>build_user_context\<close> formats from the profile and the mood
  summary. The text itself is not modelled: a context is the pair it is formatted from,
  and a chain is represented by its context. What is modelled is whether the formatting
  returns: for a profile that is not empty, each of the fields \<^verbatim>\<open>health_conditions\<close>,
  \<^verbatim>\<open>stress_triggers\<close> and \<^verbatim>\<open>goals\<close> that is present and true is joined.
\<close>

type_synonym user_context = "document option \<times> string"

datatype chain = Chain user_context

definition joins :: "document \<Rightarrow> string \<Rightarrow> bool" where
  "joins user_profile key =
     (case map_of user_profile key of
        None \<Rightarrow> True
      | Some v \<Rightarrow> \<not> truthy v \<or> joinable v)"

definition build_user_context :: "document option \<Rightarrow> string \<Rightarrow> exn + user_context" where
  "build_user_context user_profile mood_summary =
     (case user_profile of
        None \<Rightarrow> Inr (user_profile, mood_summary)
      | Some doc \<Rightarrow>
          if doc = [] then Inr (user_profile, mood_summary)
          else if \<not> joins doc ''health_conditions'' then Inl TypeError
          else if \<not> joins doc ''stress_triggers'' then Inl TypeError
          else if \<not> joins doc ''goals'' then Inl TypeError
          else Inr (user_profile, mood_summary))"

subsection \<open>\<^verbatim>\<open>llm_service.validate_gemini_response\<close>\<close>

definition crisis_keywords :: "string list" where
  "crisis_keywords =
     [''suicide'', ''self-harm'', ''kill yourself'', ''end it all'', ''hurt myself'', ''die'']"

definition diagnosis_patterns :: "string list" where
  "diagnosis_patterns =
     [''you have '', ''you are suffering from'', ''you might have'', ''you probably have'',
      ''sounds like you have'', ''diagnosis'', ''diagnose'', ''condition is'', ''disorder'',
      ''i diagnose'', ''you exhibit symptoms of'', ''clinical depression'',
      ''clinical anxiety'', ''you are experiencing'', ''you are exhibiting'',
      ''pathological'', ''psychiatric condition'']"

definition medication_patterns :: "string list" where
  "medication_patterns =
     [''you should take'', ''you need to take'', ''prescribe'', ''medication'', ''dosage'',
      ''you should try'', ''treatment plan'', ''medical treatment'', ''therapy regimen'']"

definition sos_message :: string where
  "sos_message = ''I notice this is a serious topic. If you're experiencing a crisis, please tap the red 'SOS' button in the chat to connect with professional crisis resources immediately. How can I support you right now?''"

definition diagnosis_message :: string where
  "diagnosis_message = ''I'm here to listen and support you, but I can't provide medical diagnoses or clinical advice. Consider discussing your feelings with a healthcare professional who can provide personalized guidance. How else can I support you today?''"

definition medication_message :: string where
  "medication_message = ''I'm here to provide emotional support, but I can't recommend specific treatments or medications. A healthcare professional would be the best person to discuss treatment options with you. Is there something else on your mind that you'd like to talk about?''"

text \<open>
  The loop \<^verbatim>\<open>for pattern in patterns: if pattern in response_lower: return msg\<close>;
  \<open>None\<close> when the loop falls through.
\<close>

fun scan_patterns :: "string list \<Rightarrow> string \<Rightarrow> string \<Rightarrow> string option" where
  "scan_patterns [] response_lower msg = None"
| "scan_patterns (p # ps) response_lower msg =
     (if str_contains p response_lower then Some msg
      else scan_patterns ps response_lower msg)"

definition validate_gemini_response :: "string \<Rightarrow> string option" where
  "validate_gemini_response response =
     (if response = [] \<or> length (strip response) = 0 then None
      else
        let response_lower = lower response in
        (case scan_patterns crisis_keywords response_lower sos_message of
           Some m \<Rightarrow> Some m
         | None \<Rightarrow>
           (case scan_patterns diagnosis_patterns response_lower diagnosis_message of
              Some m \<Rightarrow> Some m
            | None \<Rightarrow>
              (case scan_patterns medication_patterns response_lower medication_message of
                 Some m \<Rightarrow> Some m
               | None \<Rightarrow> Some response))))"

subsection \<open>\<^verbatim>\<open>llm_service.generate_chat_response\<close>\<close>

definition empty_reply_fallback :: string where
  "empty_reply_fallback = ''I'm sorry, I couldn't generate a helpful response. How else can I support you today?''"

definition connection_fallback :: string where
  "connection_fallback = ''I'm having trouble connecting right now. Could we try again in a moment?''"

text \<open>
  \<open>invoke\<close> is the outcome of \<^verbatim>\<open>chain.invoke({"input": ..., "history": ...})\<close>: the model's
  text, or an exception.
\<close>

definition generate_chat_response ::
  "(chain \<Rightarrow> string \<Rightarrow> base_message list \<Rightarrow> exn + string) \<Rightarrow>
   chain \<Rightarrow> string \<Rightarrow> base_message list \<Rightarrow> string" where
  "generate_chat_response invoke ch user_message history =
     (case invoke ch user_message history of
        Inl e \<Rightarrow> connection_fallback
      | Inr response \<Rightarrow>
          (case validate_gemini_response response of
             None \<Rightarrow> empty_reply_fallback
           | Some validated_response \<Rightarrow> validated_response))"

subsection \<open>The document store\<close>

text \<open>One entry of \<^verbatim>\<open>users/{user_id}/chat_sessions/{session_id}/messages\<close>.\<close>

record message_doc =
  msg_id :: string
  role :: string
  content :: string
  timestamp :: nat

text \<open>\<^verbatim>\<open>users/{user_id}/chat_sessions/{session_id}/metadata/info\<close>.\<close>

record metadata =
  created_at :: nat
  md_last_activity :: nat
  status :: string
  md_message_count :: nat
  ended_at :: "nat option"

record core =
  mood :: int
  energy :: int
  sleep :: int
  stress :: int

record rotating =
  domain_name :: string
  scores :: "int list"

record dass =
  depression :: int
  anxiety :: int
  dass_stress :: int

record point =
  question_id :: string
  score :: int

text \<open>
  The dictionary \<^verbatim>\<open>daily_doc\<close> that the quiz handler builds, and the document of
  \<^verbatim>\<open>user_mood_logs\<close> that \<^verbatim>\<open>upsert_daily_mood_log\<close> stores: the same fields, the date
  resolved, with \<^verbatim>\<open>user_id\<close> and \<^verbatim>\<open>submitted_at\<close> added.
\<close>

record daily_doc =
  log_date :: "string option"
  log_core_scores :: core
  log_rotating_scores :: rotating
  log_dass_today :: dass
  log_high_point :: point
  log_low_point :: point
  core_avg :: rat
  rotating_avg :: rat
  log_additional_notes :: "string option"

record daily_log = daily_doc +
  log_user_id :: string
  submitted_at :: nat

text \<open>One document of \<^verbatim>\<open>user_weekly_dass\<close>, with its generated name.\<close>

record weekly_dass_doc =
  w_id :: string
  w_user_id :: string
  week_start :: string
  week_end :: string
  depression_total :: int
  anxiety_total :: int
  stress_total :: int
  calculated_at :: nat

text \<open>
  The collections. \<^verbatim>\<open>user_mood_logs\<close> pairs each document name with its document;
  the names of a collection are distinct.
\<close>

record firestore =
  profile_data :: "string \<rightharpoonup> document"
  users :: "string \<rightharpoonup> document"
  session_metadata :: "string \<times> string \<rightharpoonup> metadata"
  messages :: "string \<times> string \<Rightarrow> message_doc list"
  user_mood_logs :: "(string \<times> daily_log) list"
  user_weekly_dass :: "weekly_dass_doc list"

text \<open>The calls to the store that a service wraps in \<^verbatim>\<open>try\<close>.\<close>

datatype store_op =
    ProfileGet | MetadataUpdate | MessagesQuery
  | MoodSet | MoodLastQuery | MoodCountQuery | WeeklyExistsQuery | WeeklyAdd

text \<open>
  What the collaborators do during one request: whether the store client and the two
  models have been initialised, which store calls raise, what the model calls return,
  the identifiers the store and \<^verbatim>\<open>uuid4\<close> generate, and the clock.
\<close>

record services =
  db_initialised :: bool
  base_llm_initialised :: bool
  advance_llm_initialised :: bool
  store_fails :: "store_op \<Rightarrow> bool"
  summary_invoke :: "(string \<times> daily_log) list \<Rightarrow> exn + string"
  chat_invoke :: "chain \<Rightarrow> string \<Rightarrow> base_message list \<Rightarrow> exn + string"
  uuid4 :: string
  auto_id :: string
  utcnow :: nat
  today :: string
  date_of :: "nat \<Rightarrow> string"

subsection \<open>\<^verbatim>\<open>llm_service\<close>: summary and chain\<close>

definition summary_fallback :: string where
  "summary_fallback = ''User has been tracking their mood regularly over the past week.''"

definition summarize_mood_logs ::
  "services \<Rightarrow> (string \<times> daily_log) list \<Rightarrow> exn + string" where
  "summarize_mood_logs sv mood_logs =
     (if \<not> base_llm_initialised sv then Inl RuntimeError
      else if mood_logs = [] then Inr []
      else
        (case summary_invoke sv mood_logs of
           Inl e \<Rightarrow> Inr summary_fallback
         | Inr summary \<Rightarrow> Inr (strip summary)))"

definition create_conversation_chain :: "services \<Rightarrow> user_context \<Rightarrow> exn + chain" where
  "create_conversation_chain sv user_context =
     (if \<not> advance_llm_initialised sv then Inl RuntimeError
      else Inr (Chain user_context))"

subsection \<open>\<^verbatim>\<open>chat_memory_service\<close>\<close>

text \<open>
  Each service function first calls \<^verbatim>\<open>get_firestore_client()\<close>, outside its
  \<^verbatim>\<open>try\<close>: with no client the \<^verbatim>\<open>RuntimeError\<close> reaches the caller. An exception of
  a store call inside the \<^verbatim>\<open>try\<close> is caught and replaced by the default result.
\<close>

definition get_user_profile :: "services \<Rightarrow> firestore \<Rightarrow> string \<Rightarrow> exn + document option" where
  "get_user_profile sv fs user_id =
     (if \<not> db_initialised sv then Inl RuntimeError
      else if store_fails sv ProfileGet then Inr None
      else
        (case profile_data fs user_id of
           Some doc \<Rightarrow> Inr (Some doc)
         | None \<Rightarrow>
             (case users fs user_id of
                Some user_doc \<Rightarrow> Inr (Some user_doc)
              | None \<Rightarrow> Inr None)))"

text \<open>
  The query \<^verbatim>\<open>order_by("timestamp", ASCENDING).limit(max_messages)\<close>: the documents
  in ascending order of time stamp (equal time stamps in the order of the document
  names), cut after the first \<open>max_messages\<close>.
\<close>

definition query_messages :: "message_doc list \<Rightarrow> nat \<Rightarrow> message_doc list" where
  "query_messages docs max_messages =
     take max_messages (sort_key (\<lambda>d. (timestamp d, msg_id d)) docs)"

text \<open>The loop over the query's documents: other roles are skipped.\<close>

fun to_messages :: "message_doc list \<Rightarrow> base_message list" where
  "to_messages [] = []"
| "to_messages (d # ds) =
     (if role d = ''user'' then HumanMessage (content d) # to_messages ds
      else if role d = ''assistant'' then AIMessage (content d) # to_messages ds
      else to_messages ds)"

definition load_conversation_memory ::
  "services \<Rightarrow> firestore \<Rightarrow> string \<Rightarrow> string \<Rightarrow> nat \<Rightarrow> exn + base_message list" where
  "load_conversation_memory sv fs user_id session_id max_messages =
     (if \<not> db_initialised sv then Inl RuntimeError
      else if store_fails sv MessagesQuery then Inr []
      else Inr (to_messages (query_messages (messages fs (user_id, session_id)) max_messages)))"

text \<open>
  \<^verbatim>\<open>end_session\<close> updates the metadata document; updating a document that does not
  exist raises in the store, which the function catches like any other failure.
\<close>

definition end_session ::
  "services \<Rightarrow> firestore \<Rightarrow> string \<Rightarrow> string \<Rightarrow> exn + bool \<times> firestore" where
  "end_session sv fs user_id session_id =
     (if \<not> db_initialised sv then Inl RuntimeError
      else if store_fails sv MetadataUpdate then Inr (False, fs)
      else
        (case session_metadata fs (user_id, session_id) of
           None \<Rightarrow> Inr (False, fs)
         | Some md \<Rightarrow>
             Inr (True,
               fs\<lparr>session_metadata := (session_metadata fs)
                     ((user_id, session_id) \<mapsto>
                        md\<lparr>status := ''ended'', ended_at := Some (utcnow sv)\<rparr>)\<rparr>)))"

subsection \<open>\<^verbatim>\<open>mood_service\<close>\<close>

record upsert_result =
  doc_id :: string
  result_date :: string
  operation :: string

text \<open>\<^verbatim>\<open>doc_ref.set(daily_log)\<close>: the document of that name is created or replaced.\<close>

fun set_document :: "string \<Rightarrow> 'a \<Rightarrow> (string \<times> 'a) list \<Rightarrow> (string \<times> 'a) list" where
  "set_document k v [] = [(k, v)]"
| "set_document k v ((k', v') # kvs) =
     (if k' = k then (k, v) # kvs else (k', v') # set_document k v kvs)"

text \<open>\<^verbatim>\<open>daily_log.get("date") or date.today().isoformat()\<close>.\<close>

definition date_or_today :: "services \<Rightarrow> string option \<Rightarrow> string" where
  "date_or_today sv d =
     (case d of None \<Rightarrow> today sv | Some d' \<Rightarrow> if d' = [] then today sv else d')"

definition upsert_daily_mood_log ::
  "services \<Rightarrow> firestore \<Rightarrow> string \<Rightarrow> daily_doc \<Rightarrow> exn + upsert_result option \<times> firestore" where
  "upsert_daily_mood_log sv fs user_id daily_log =
     (if \<not> db_initialised sv then Inl RuntimeError
      else if store_fails sv MoodSet then Inr (None, fs)
      else
        let date_str = date_or_today sv (log_date daily_log);
            doc_id = user_id @ ''_'' @ date_str;
            stored =
              \<lparr>log_date = Some date_str,
               log_core_scores = log_core_scores daily_log,
               log_rotating_scores = log_rotating_scores daily_log,
               log_dass_today = log_dass_today daily_log,
               log_high_point = log_high_point daily_log,
               log_low_point = log_low_point daily_log,
               core_avg = core_avg daily_log,
               rotating_avg = rotating_avg daily_log,
               log_additional_notes = log_additional_notes daily_log,
               log_user_id = user_id,
               submitted_at = utcnow sv\<rparr>
        in Inr (Some \<lparr>doc_id = doc_id, result_date = date_str, operation = ''upsert''\<rparr>,
                fs\<lparr>user_mood_logs := set_document doc_id stored (user_mood_logs fs)\<rparr>))"

text \<open>
  The query \<^verbatim>\<open>where("user_id", "==", user_id).order_by("submitted_at", DESCENDING)\<close>
  with \<^verbatim>\<open>limit(limit)\<close>; each entry carries its document name.
\<close>

definition get_last_daily_mood_logs ::
  "services \<Rightarrow> firestore \<Rightarrow> string \<Rightarrow> nat \<Rightarrow> exn + (string \<times> daily_log) list" where
  "get_last_daily_mood_logs sv fs user_id limit =
     (if \<not> db_initialised sv then Inl RuntimeError
      else if store_fails sv MoodLastQuery then Inr []
      else
        Inr (take limit
               (rev (sort_key (\<lambda>(k, d). (submitted_at d, k))
                  (filter (\<lambda>(k, d). log_user_id d = user_id) (user_mood_logs fs))))))"

definition get_daily_mood_logs_count :: "services \<Rightarrow> firestore \<Rightarrow> string \<Rightarrow> exn + nat" where
  "get_daily_mood_logs_count sv fs user_id =
     (if \<not> db_initialised sv then Inl RuntimeError
      else if store_fails sv MoodCountQuery then Inr 0
      else Inr (length (filter (\<lambda>(k, d). log_user_id d = user_id) (user_mood_logs fs))))"

definition weekly_dass_exists ::
  "services \<Rightarrow> firestore \<Rightarrow> string \<Rightarrow> string \<Rightarrow> string \<Rightarrow> exn + bool" where
  "weekly_dass_exists sv fs user_id week_start' week_end' =
     (if \<not> db_initialised sv then Inl RuntimeError
      else if store_fails sv WeeklyExistsQuery then Inr False
      else
        Inr (filter (\<lambda>w. w_user_id w = user_id \<and> week_start w = week_start' \<and>
                          week_end w = week_end') (user_weekly_dass fs) \<noteq> []))"

definition save_weekly_dass_totals ::
  "services \<Rightarrow> firestore \<Rightarrow> string \<Rightarrow> string \<Rightarrow> string \<Rightarrow> int \<Rightarrow> int \<Rightarrow> int \<Rightarrow>
   exn + string option \<times> firestore" where
  "save_weekly_dass_totals sv fs user_id week_start' week_end' depression_total'
       anxiety_total' stress_total' =
     (if \<not> db_initialised sv then Inl RuntimeError
      else if store_fails sv WeeklyAdd then Inr (None, fs)
      else
        let data =
              \<lparr>w_id = auto_id sv,
               w_user_id = user_id,
               week_start = week_start',
               week_end = week_end',
               depression_total = depression_total',
               anxiety_total = anxiety_total',
               stress_total = stress_total',
               calculated_at = utcnow sv\<rparr>
        in Inr (Some (auto_id sv), fs\<lparr>user_weekly_dass := user_weekly_dass fs @ [data]\<rparr>))"

subsection \<open>\<^verbatim>\<open>api/chat.py\<close>\<close>

text \<open>
  The in-process cache \<^verbatim>\<open>active_chat_sessions\<close>: user, then session, then entry. The
  threads that a handler starts are recorded in the order of their start; a thread is
  named by its target and arguments.
\<close>

record cache_entry =
  chain :: chain
  last_activity :: nat
  message_count :: nat

type_synonym session_cache = "string \<rightharpoonup> (string \<rightharpoonup> cache_entry)"

datatype thread =
    CreateSessionMetadata string string
  | SaveConversationTurn string string string string nat
  | UpdateSessionActivity string string
  | EndSession string string

record chat_state =
  active_chat_sessions :: session_cache
  threads :: "thread list"

text \<open>
  A handler's answer: an error body with its status, or the success body with its
  status. The parsed JSON body of a request is \<open>None\<close> when it is missing or an empty
  object, which Python takes for false. A field of the body that is present is a
  string.
\<close>

datatype 'a response = Failure nat string string | Success nat 'a

record chat_payload =
  payload_message :: "string option"
  payload_session_id :: "string option"

record chat_body =
  user_message :: string
  ai_response :: string
  reply_timestamp :: nat
  reply_session_id :: string
  reply_message_count :: nat



definition create_chain_for_user :: "services \<Rightarrow> firestore \<Rightarrow> string \<Rightarrow> exn + chain" where
  "create_chain_for_user sv fs user_id =
     (case get_user_profile sv fs user_id of
        Inl e \<Rightarrow> Inl e
      | Inr user_profile \<Rightarrow>
          (case get_last_daily_mood_logs sv fs user_id 7 of
             Inl e \<Rightarrow> Inl e
           | Inr mood_logs \<Rightarrow>
               (case (if mood_logs \<noteq> [] then summarize_mood_logs sv mood_logs else Inr []) of
                  Inl e \<Rightarrow> Inl e
                | Inr mood_summary \<Rightarrow>
                    (case build_user_context user_profile mood_summary of
                       Inl e \<Rightarrow> Inl e
                     | Inr user_context \<Rightarrow> create_conversation_chain sv user_context))))"

definition cache_lookup :: "session_cache \<Rightarrow> string \<Rightarrow> string \<Rightarrow> cache_entry option" where
  "cache_lookup cache user_id sid =
     (case cache user_id of None \<Rightarrow> None | Some sessions \<Rightarrow> sessions sid)"


definition cache_store ::
  "session_cache \<Rightarrow> string \<Rightarrow> string \<Rightarrow> cache_entry \<Rightarrow> session_cache" where
  "cache_store cache user_id sid entry =
     cache(user_id \<mapsto>
       (case cache user_id of None \<Rightarrow> Map.empty | Some sessions \<Rightarrow> sessions)
         (sid \<mapsto> entry))"

text \<open>
  \<^verbatim>\<open>_load_session\<close>. The result \<open>None\<close> is the triple \<^verbatim>\<open>(None, None, [])\<close> of the
  \<^verbatim>\<open>except\<close> branch; what the function did to the cache and which threads it started
  before the exception stay done. \<^verbatim>\<open>load_conversation_memory\<close> returns message objects
  only, so the loop over \<^verbatim>\<open>raw_messages\<close> keeps every one of them.
\<close>

definition load_session ::
  "services \<Rightarrow> firestore \<Rightarrow> chat_state \<Rightarrow> string option \<Rightarrow> string \<Rightarrow>
   (string \<times> chain \<times> base_message list) option \<times> chat_state" where
  "load_session sv fs st token user_id =
     (let st1 =
            (if active_chat_sessions st user_id = None
             then st\<lparr>active_chat_sessions := (active_chat_sessions st)(user_id \<mapsto> Map.empty)\<rparr>
             else st);
          new_session =
            (let session_id = uuid4 sv;
                 st2 = st1\<lparr>threads := threads st1 @
                         [CreateSessionMetadata user_id session_id]\<rparr>
             in
               (case create_chain_for_user sv fs user_id of
                  Inl e \<Rightarrow> (None, st2)
                | Inr ch \<Rightarrow>
                    (Some (session_id, ch, []),
                     st2\<lparr>active_chat_sessions :=
                           cache_store (active_chat_sessions st2) user_id session_id
                             \<lparr>chain = ch, last_activity = utcnow sv, message_count = 0\<rparr>\<rparr>)))
      in
        (case token of
           None \<Rightarrow> new_session
         | Some session_id \<Rightarrow>
             if session_id = [] then new_session
             else
               (case load_conversation_memory sv fs user_id session_id 25 of
                  Inl e \<Rightarrow> (None, st1)
                | Inr raw_messages \<Rightarrow>
                    let history_messages = raw_messages in
                      (case cache_lookup (active_chat_sessions st1) user_id session_id of
                         Some entry \<Rightarrow>
                           (Some (session_id, chain entry, history_messages), st1)
                       | None \<Rightarrow>
                           (case create_chain_for_user sv fs user_id of
                              Inl e \<Rightarrow> (None, st1)
                            | Inr ch \<Rightarrow>
                                (Some (session_id, ch, history_messages),
                                 st1\<lparr>active_chat_sessions :=
                                       cache_store (active_chat_sessions st1) user_id
                                         session_id
                                         \<lparr>chain = ch, last_activity = utcnow sv,
                                          message_count =
                                            length history_messages div 2\<rparr>\<rparr>))))))"

definition send_chat_message ::
  "services \<Rightarrow> firestore \<Rightarrow> chat_state \<Rightarrow> chat_payload option \<Rightarrow> string \<Rightarrow>
   chat_body response \<times> chat_state" where
  "send_chat_message sv fs st message_data user_id =
     (case message_data of
        None \<Rightarrow> (Failure 400 ''Invalid request'' ''JSON data is required'', st)
      | Some data \<Rightarrow>
          let user_message' = strip (case payload_message data of None \<Rightarrow> [] | Some m \<Rightarrow> m) in
          if user_message' = [] then
            (Failure 400 ''Invalid message'' ''Message cannot be empty'', st)
          else if 1000 < length user_message' then
            (Failure 400 ''Message too long'' ''Message must be 1000 characters or less'', st)
          else
            (case load_session sv fs st (payload_session_id data) user_id of
               (None, st1) \<Rightarrow>
                 (Failure 500 ''Session error'' ''Could not initialize chat session'', st1)
             | (Some (session_id', ch, history_messages), st1) \<Rightarrow>
                 let ai_response' =
                       generate_chat_response (chat_invoke sv) ch user_message'
                         history_messages;
                     turn_number = length history_messages div 2;
                     st2 = st1\<lparr>threads := threads st1 @
                             [SaveConversationTurn user_id session_id' user_message'
                                ai_response' turn_number,
                              UpdateSessionActivity user_id session_id']\<rparr>;
                     st3 =
                       (case cache_lookup (active_chat_sessions st2) user_id session_id' of
                          None \<Rightarrow> st2
                        | Some entry \<Rightarrow>
                            st2\<lparr>active_chat_sessions :=
                                  cache_store (active_chat_sessions st2) user_id session_id'
                                    (entry\<lparr>message_count := message_count entry + 1,
                                           last_activity := utcnow sv\<rparr>)\<rparr>)
                 in
                   (Success 201
                      \<lparr>user_message = user_message',
                       ai_response = ai_response',
                       reply_timestamp = utcnow sv,
                       reply_session_id = session_id',
                       reply_message_count =
                         (case cache_lookup (active_chat_sessions st3) user_id session_id' of
                            None \<Rightarrow> 0
                          | Some entry \<Rightarrow> message_count entry)\<rparr>,
                    st3)))"


subsection \<open>\<^verbatim>\<open>api/mood.py\<close>\<close>

record quiz_payload =
  payload_core_scores :: "core option"
  payload_rotating_scores :: "rotating option"
  payload_dass_today :: "dass option"
  payload_date :: "string option"
  payload_additional_notes :: "string option"

record weekly_result =
  weekly_id :: string
  result_week_start :: string
  result_week_end :: string
  result_depression_total :: int
  result_anxiety_total :: int
  result_stress_total :: int
  weekly_core_avg :: "rat option"
  weekly_rotating_avg :: "rat option"

record quiz_body =
  log_id :: string
  high_point :: point
  low_point :: point
  weekly_dass :: "weekly_result option"

text \<open>
  The answer of the quiz handler: a validation or database error, the answer of the
  outer \<^verbatim>\<open>except\<close> (status 500, error \<^verbatim>\<open>Server error\<close>, the exception as message), or
  the success body.
\<close>

datatype quiz_response =
    QuizFailure nat string string
  | ServerError exn
  | QuizSuccess nat quiz_body

text \<open>
  Python's \<^verbatim>\<open>xs.index(x)\<close>, \<^verbatim>\<open>max(xs)\<close> and \<^verbatim>\<open>min(xs)\<close>; \<open>None\<close> where Python
  raises \<^verbatim>\<open>ValueError\<close>.
\<close>

fun py_index :: "'a list \<Rightarrow> 'a \<Rightarrow> nat option" where
  "py_index [] x = None"
| "py_index (y # ys) x = (if y = x then Some 0 else map_option Suc (py_index ys x))"

fun py_max :: "'a::linorder list \<Rightarrow> 'a option" where
  "py_max [] = None"
| "py_max (x # xs) = Some (fold max xs x)"

fun py_min :: "'a::linorder list \<Rightarrow> 'a option" where
  "py_min [] = None"
| "py_min (x # xs) = Some (fold min xs x)"

definition all_questions :: "string list" where
  "all_questions =
     [''q1'', ''q2'', ''q3'', ''q4'', ''q5'', ''q6'', ''q7'', ''q8'', ''q9'',
      ''q10'', ''q11'', ''q12'']"

text \<open>
  Step 3 of the handler, on the list \<^verbatim>\<open>all_scores\<close>; \<open>None\<close> where an index or a
  maximum does not exist and Python raises.
\<close>

definition high_low_points :: "int list \<Rightarrow> (point \<times> point) option" where
  "high_low_points all_scores =
     (case py_max all_scores of
        None \<Rightarrow> None
      | Some hi \<Rightarrow>
          (case py_index all_scores hi of
             None \<Rightarrow> None
           | Some high_idx \<Rightarrow>
               (case py_min all_scores of
                  None \<Rightarrow> None
                | Some lo \<Rightarrow>
                    (case py_index all_scores lo of
                       None \<Rightarrow> None
                     | Some low_idx \<Rightarrow>
                         if high_idx < length all_questions \<and> low_idx < length all_questions
                         then
                           Some (\<lparr>question_id = all_questions ! high_idx,
                                  score = all_scores ! high_idx\<rparr>,
                                 \<lparr>question_id = all_questions ! low_idx,
                                  score = all_scores ! low_idx\<rparr>)
                         else None))))"

text \<open>\<^verbatim>\<open>_to_dass_scale\<close>: a key outside the table raises \<^verbatim>\<open>KeyError\<close>.\<close>

definition to_dass_scale :: "int \<Rightarrow> int option" where
  "to_dass_scale s = map_of [(1, 0), (2, 1), (3, 1), (4, 2), (5, 3)] s"

text \<open>\<^verbatim>\<open>sum(_to_dass_scale(s) for s in vals) * 2\<close>.\<close>

fun dass_sum :: "int list \<Rightarrow> int option" where
  "dass_sum [] = Some 0"
| "dass_sum (s # ss) =
     (case to_dass_scale s of
        None \<Rightarrow> None
      | Some v \<Rightarrow> map_option (\<lambda>t. v + t) (dass_sum ss))"

definition dass_total :: "int list \<Rightarrow> int option" where
  "dass_total vals = map_option (\<lambda>t. t * 2) (dass_sum vals)"

text \<open>
  \<^verbatim>\<open>_extract_date\<close>: the entry's date, else the day of its \<^verbatim>\<open>submitted_at\<close>.
\<close>

definition extract_date :: "services \<Rightarrow> daily_log \<Rightarrow> string" where
  "extract_date sv entry =
     (case log_date entry of
        None \<Rightarrow> date_of sv (submitted_at entry)
      | Some d \<Rightarrow> if d = [] then date_of sv (submitted_at entry) else d)"

definition average :: "rat list \<Rightarrow> rat option" where
  "average xs = (if xs = [] then None else Some (py_round2 (sum_list xs / of_nat (length xs))))"

text \<open>The weekly aggregation that follows the save, with the store as it then is.\<close>

definition weekly_aggregation ::
  "services \<Rightarrow> firestore \<Rightarrow> string \<Rightarrow> exn + weekly_result option \<times> firestore" where
  "weekly_aggregation sv fs user_id =
     (case get_daily_mood_logs_count sv fs user_id of
        Inl e \<Rightarrow> Inl e
      | Inr total_count \<Rightarrow>
     (case get_last_daily_mood_logs sv fs user_id 7 of
        Inl e \<Rightarrow> Inl e
      | Inr last_7 \<Rightarrow>
          if 7 \<le> total_count \<and> total_count mod 7 = 0 \<and> length last_7 = 7 then
            (case dass_total (map (\<lambda>(k, entry). depression (log_dass_today entry)) last_7) of
               None \<Rightarrow> Inl KeyError
             | Some depression_total' \<Rightarrow>
            (case dass_total (map (\<lambda>(k, entry). anxiety (log_dass_today entry)) last_7) of
               None \<Rightarrow> Inl KeyError
             | Some anxiety_total' \<Rightarrow>
            (case dass_total (map (\<lambda>(k, entry). dass_stress (log_dass_today entry)) last_7) of
               None \<Rightarrow> Inl KeyError
             | Some stress_total' \<Rightarrow>
                 let dates = filter (\<lambda>d. d \<noteq> []) (map (\<lambda>(k, entry). extract_date sv entry) last_7);
                     week_start' =
                       (case py_min dates of None \<Rightarrow> today sv | Some d \<Rightarrow> d);
                     week_end' =
                       (case py_max dates of None \<Rightarrow> week_start' | Some d \<Rightarrow> d)
                 in
                   (case weekly_dass_exists sv fs user_id week_start' week_end' of
                      Inl e \<Rightarrow> Inl e
                    | Inr True \<Rightarrow> Inr (None, fs)
                    | Inr False \<Rightarrow>
                        (case save_weekly_dass_totals sv fs user_id week_start' week_end'
                                depression_total' anxiety_total' stress_total' of
                           Inl e \<Rightarrow> Inl e
                         | Inr (None, fs') \<Rightarrow> Inr (None, fs')
                         | Inr (Some weekly_id', fs') \<Rightarrow>
                             if weekly_id' = [] then Inr (None, fs')
                             else
                               let core_avgs_per_day =
                                     map (\<lambda>(k, entry).
                                       let c = log_core_scores entry in
                                         of_int (mood c + energy c + sleep c + stress c) / 4)
                                       last_7;
                                   rotating_avgs_per_day =
                                     map (\<lambda>(k, entry).
                                       of_int (sum_list (scores (log_rotating_scores entry))) / 5)
                                       (filter (\<lambda>(k, entry).
                                          length (scores (log_rotating_scores entry)) = 5) last_7)
                               in
                                 Inr (Some \<lparr>weekly_id = weekly_id',
                                            result_week_start = week_start',
                                            result_week_end = week_end',
                                            result_depression_total = depression_total',
                                            result_anxiety_total = anxiety_total',
                                            result_stress_total = stress_total',
                                            weekly_core_avg = average core_avgs_per_day,
                                            weekly_rotating_avg =
                                              average rotating_avgs_per_day\<rparr>,
                                      fs'))))))
          else Inr (None, fs)))"

definition valid_score :: "int \<Rightarrow> bool" where
  "valid_score s \<longleftrightarrow> 1 \<le> s \<and> s \<le> 5"

text \<open>
  The validation part of \<^verbatim>\<open>submit_daily_quiz\<close>: the 400 answer of the first check
  that fails, or the three sections. A section of the payload that is present has all
  its keys, and a score is an integer.
\<close>

definition validate_quiz ::
  "quiz_payload option \<Rightarrow> quiz_response + quiz_payload \<times> core \<times> rotating \<times> dass" where
  "validate_quiz request_json =
     (case request_json of
        None \<Rightarrow> Inl (QuizFailure 400 ''Invalid request'' ''JSON body required'')
      | Some payload \<Rightarrow>
     (case (payload_core_scores payload, payload_rotating_scores payload,
            payload_dass_today payload) of
        (Some core', Some rotating', Some dass') \<Rightarrow>
          let core_scores = [mood core', energy core', sleep core', stress core'] in
          if \<not> list_all valid_score core_scores then
            Inl (QuizFailure 400 ''Invalid core_scores''
                   ''All core scores must be integers between 1 and 5'')
          else if length (scores rotating') \<noteq> 5 then
            Inl (QuizFailure 400 ''Invalid rotating_scores''
                   ''scores must be a list of 5 integers'')
          else if \<not> list_all valid_score (scores rotating') then
            Inl (QuizFailure 400 ''Invalid rotating_scores''
                   ''All rotating scores must be integers between 1 and 5'')
          else
            let dass_scores = [depression dass', anxiety dass', dass_stress dass'] in
            if \<not> list_all valid_score dass_scores then
              Inl (QuizFailure 400 ''Invalid dass_today''
                     ''All DASS scores must be integers between 1 and 5'')
            else Inr (payload, core', rotating', dass')
      | _ \<Rightarrow>
          Inl (QuizFailure 400 ''Missing required fields''
                 ''core_scores, rotating_scores, and dass_today are required'')))"

text \<open>The twelve scores in the order of the questions \<open>q1\<close> to \<open>q12\<close>.\<close>

definition all_scores_of :: "core \<Rightarrow> rotating \<Rightarrow> dass \<Rightarrow> int list" where
  "all_scores_of core' rotating' dass' =
     [mood core', energy core', sleep core', stress core'] @ scores rotating' @
     [depression dass', anxiety dass', dass_stress dass']"

text \<open>The dictionary \<^verbatim>\<open>daily_doc\<close> of the handler.\<close>

definition build_daily_doc ::
  "quiz_payload \<Rightarrow> core \<Rightarrow> rotating \<Rightarrow> dass \<Rightarrow> point \<Rightarrow> point \<Rightarrow> daily_doc" where
  "build_daily_doc payload core' rotating' dass' high_point' low_point' =
     (let core_scores = [mood core', energy core', sleep core', stress core'];
          rotating_scores = scores rotating'
      in
        \<lparr>log_date = payload_date payload,
         log_core_scores = core',
         log_rotating_scores =
           \<lparr>domain_name = domain_name rotating', scores = rotating_scores\<rparr>,
         log_dass_today = dass',
         log_high_point = high_point',
         log_low_point = low_point',
         core_avg = of_int (sum_list core_scores) / of_nat (length core_scores),
         rotating_avg = of_int (sum_list rotating_scores) / of_nat (length rotating_scores),
         log_additional_notes =
           (case payload_additional_notes payload of
              None \<Rightarrow> None
            | Some n \<Rightarrow> if n = [] then None else Some n)\<rparr>)"

text \<open>
  \<^verbatim>\<open>submit_daily_quiz\<close>. The insight generation between the save and the aggregation
  writes to no collection modelled here and its exceptions are caught, so it is left
  out.
\<close>

definition submit_daily_quiz ::
  "services \<Rightarrow> firestore \<Rightarrow> quiz_payload option \<Rightarrow> string \<Rightarrow> quiz_response \<times> firestore" where
  "submit_daily_quiz sv fs request_json user_id =
     (case validate_quiz request_json of
        Inl answer \<Rightarrow> (answer, fs)
      | Inr (payload, core', rotating', dass') \<Rightarrow>
          (case high_low_points (all_scores_of core' rotating' dass') of
             None \<Rightarrow> (ServerError ValueError, fs)
           | Some (high_point', low_point') \<Rightarrow>
               (case upsert_daily_mood_log sv fs user_id
                       (build_daily_doc payload core' rotating' dass' high_point'
                          low_point') of
                  Inl e \<Rightarrow> (ServerError e, fs)
                | Inr (None, fs1) \<Rightarrow>
                    (QuizFailure 500 ''Database error'' ''Failed to save daily mood log'',
                     fs1)
                | Inr (Some result, fs1) \<Rightarrow>
                    (case weekly_aggregation sv fs1 user_id of
                       Inl e \<Rightarrow> (ServerError e, fs1)
                     | Inr (weekly_result', fs2) \<Rightarrow>
                         (QuizSuccess 201
                            \<lparr>log_id = doc_id result,
                             high_point = high_point',
                             low_point = low_point',
                             weekly_dass = weekly_result'\<rparr>,
                          fs2)))))"

text \<open>
  The remap table of the specification, \<open>1\<rightarrow>0, 2\<rightarrow>1, 3\<rightarrow>1, 4\<rightarrow>2, 5\<rightarrow>3\<close>, on the scores 1
  to 5.
\<close>

definition spec_remap :: "int \<Rightarrow> int" where
  "spec_remap s =
     (if s = 1 then 0 else if s = 2 then 1 else if s = 3 then 1 else if s = 4 then 2 else 3)"

subsection \<open>\<^verbatim>\<open>prediction_service\<close>\<close>

text \<open>The parsed \<^verbatim>\<open>StressPrediction\<close> object and the dictionary built from it.\<close>

record stress_prediction =
  stress_probability :: rat
  label :: string
  confidence :: rat

record based_on =
  avgMoodScore :: rat
  chatCount :: int
  avgQuizScore :: int

record prediction =
  pred_date :: string
  stressProbability :: rat
  pred_label :: string
  pred_confidence :: rat
  basedOn :: based_on

text \<open>
  \<open>invoke\<close> is the outcome of running prompt, model and parser on the three inputs:
  the parsed object, or an exception (the call failed, or the output did not parse).
\<close>

definition predict_with_llm ::
  "bool \<Rightarrow> (rat \<Rightarrow> int \<Rightarrow> int \<Rightarrow> exn + stress_prediction) \<Rightarrow>
   rat \<Rightarrow> int \<Rightarrow> int \<Rightarrow> exn + stress_prediction option" where
  "predict_with_llm base_llm_ready invoke avg_mood_score chat_count avg_quiz_score =
     (if \<not> base_llm_ready then Inl RuntimeError
      else
        (case invoke avg_mood_score chat_count avg_quiz_score of
           Inl e \<Rightarrow> Inr None
         | Inr prediction_model \<Rightarrow>
             let result = prediction_model;
                 result = result\<lparr>stress_probability :=
                            max 0 (min 1 (stress_probability result))\<rparr>;
                 result = result\<lparr>confidence := max 0 (min 1 (confidence result))\<rparr>;
                 prob = stress_probability result;
                 result =
                   (if 7 / 10 \<le> prob then result\<lparr>label := ''High''\<rparr>
                    else if 2 / 5 \<le> prob then result\<lparr>label := ''Medium''\<rparr>
                    else result\<lparr>label := ''Low''\<rparr>)
             in Inr (Some result)))"

definition fallback_prediction :: "rat \<Rightarrow> int \<Rightarrow> int \<Rightarrow> stress_prediction" where
  "fallback_prediction avg_mood_score chat_count avg_quiz_score =
     (let mood_factor = (5 - avg_mood_score) / 4;
          chat_factor = min (of_int chat_count / 15) 1;
          quiz_factor = (60 - of_int avg_quiz_score) / 48;
          stress_probability =
            mood_factor * (2 / 5) + chat_factor * (1 / 5) + quiz_factor * (2 / 5);
          stress_probability = max 0 (min 1 stress_probability);
          label =
            (if 7 / 10 \<le> stress_probability then ''High''
             else if 2 / 5 \<le> stress_probability then ''Medium''
             else ''Low'');
          confidence = 13 / 20
      in \<lparr>stress_probability = py_round2 stress_probability,
          label = label,
          confidence = confidence\<rparr>)"

definition predict_stress ::
  "string \<Rightarrow> bool \<Rightarrow> (rat \<Rightarrow> int \<Rightarrow> int \<Rightarrow> exn + stress_prediction) \<Rightarrow>
   rat \<Rightarrow> int \<Rightarrow> int \<Rightarrow> prediction" where
  "predict_stress tomorrow base_llm_ready invoke avg_mood_score chat_count avg_quiz_score =
     (let echo = \<lparr>avgMoodScore = avg_mood_score, chatCount = chat_count,
                     avgQuizScore = avg_quiz_score\<rparr>;
          fallback_result = fallback_prediction avg_mood_score chat_count avg_quiz_score;
          fallback =
            \<lparr>pred_date = tomorrow,
             stressProbability = stress_probability fallback_result,
             pred_label = label fallback_result,
             pred_confidence = confidence fallback_result,
             basedOn = echo\<rparr>
      in
        (case predict_with_llm base_llm_ready invoke avg_mood_score chat_count
                avg_quiz_score of
           Inr (Some llm_result) \<Rightarrow>
             \<lparr>pred_date = tomorrow,
              stressProbability = stress_probability llm_result,
              pred_label = label llm_result,
              pred_confidence = confidence llm_result,
              basedOn = echo\<rparr>
         | Inr None \<Rightarrow> fallback
         | Inl e \<Rightarrow> fallback))"

subsection \<open>Example collaborators and states\<close>

text \<open>
  Concrete values at which the properties below are instantiated: every collaborator
  available, an empty store, an empty cache; and a session of thirteen turns whose
  twenty-six messages \<open>A\<close> to \<open>Z\<close> were stored at the times 0 to 25.
\<close>

definition example_services :: services where
  "example_services =
     \<lparr>db_initialised = True,
      base_llm_initialised = True,
      advance_llm_initialised = True,
      store_fails = (\<lambda>call. False),
      summary_invoke = (\<lambda>logs. Inr ''Mood has been stable.''),
      chat_invoke = (\<lambda>ch m h. Inr ''That sounds hard. What helped before?''),
      uuid4 = ''session-1'',
      auto_id = ''weekly-1'',
      utcnow = 100,
      today = ''2024-03-08'',
      date_of = (\<lambda>t. ''2024-03-08'')\<rparr>"

definition empty_firestore :: firestore where
  "empty_firestore =
     \<lparr>profile_data = Map.empty,
      users = Map.empty,
      session_metadata = Map.empty,
      messages = (\<lambda>key. []),
      user_mood_logs = [],
      user_weekly_dass = []\<rparr>"

definition empty_chat_state :: chat_state where
  "empty_chat_state = \<lparr>active_chat_sessions = Map.empty, threads = []\<rparr>"

definition example_thread :: "message_doc list" where
  "example_thread =
     map (\<lambda>(t, c).
            \<lparr>msg_id = [c],
             role = (if even t then ''user'' else ''assistant''),
             content = [c],
             timestamp = t\<rparr>)
       (zip [0..<26] ''ABCDEFGHIJKLMNOPQRSTUVWXYZ'')"

text \<open>
  The quiz of the specification's example, scores \<open>3,5,1,4,2,3,3,3,3,2,2,2\<close> for
  \<open>q1\<close> to \<open>q12\<close>, and a second quiz for the same day.
\<close>

definition example_payload :: quiz_payload where
  "example_payload =
     \<lparr>payload_core_scores = Some \<lparr>mood = 3, energy = 5, sleep = 1, stress = 4\<rparr>,
      payload_rotating_scores = Some \<lparr>domain_name = ''social'', scores = [2, 3, 3, 3, 3]\<rparr>,
      payload_dass_today = Some \<lparr>depression = 2, anxiety = 2, dass_stress = 2\<rparr>,
      payload_date = Some ''2024-03-08'',
      payload_additional_notes = None\<rparr>"


text \<open>
  Six earlier logs of the user \<open>u1\<close>, one for each day from 2 to 7 March 2024,
  submitted at the times 1 to 6.
\<close>

definition example_log :: "string \<Rightarrow> nat \<Rightarrow> int \<Rightarrow> int \<Rightarrow> int \<Rightarrow> string \<times> daily_log" where
  "example_log d t dep anx str =
     (''u1_'' @ d,
      \<lparr>log_date = Some d,
       log_core_scores = \<lparr>mood = 3, energy = 3, sleep = 3, stress = 3\<rparr>,
       log_rotating_scores = \<lparr>domain_name = ''social'', scores = [3, 3, 3, 3, 3]\<rparr>,
       log_dass_today = \<lparr>depression = dep, anxiety = anx, dass_stress = str\<rparr>,
       log_high_point = \<lparr>question_id = ''q1'', score = 3\<rparr>,
       log_low_point = \<lparr>question_id = ''q10'', score = min dep (min anx str)\<rparr>,
       core_avg = 3,
       rotating_avg = 3,
       log_additional_notes = None,
       log_user_id = ''u1'',
       submitted_at = t\<rparr>)"

definition example_week :: "(string \<times> daily_log) list" where
  "example_week =
     [example_log ''2024-03-02'' 1 1 2 3,
      example_log ''2024-03-03'' 2 2 2 4,
      example_log ''2024-03-04'' 3 3 2 5,
      example_log ''2024-03-05'' 4 4 2 1,
      example_log ''2024-03-06'' 5 5 2 1,
      example_log ''2024-03-07'' 6 1 2 1]"

section \<open>Properties\<close>

subsection \<open>Strings\<close>

lemma str_contains_sublist: "str_contains p s \<longleftrightarrow> sublist p s"
  by (induction s) (simp_all add: sublist_Cons_right)

lemma all_dropWhile_iff: "(\<forall>x\<in>set (dropWhile P xs). P x) \<longleftrightarrow> (\<forall>x\<in>set xs. P x)"
  by (induction xs) auto

lemma strip_empty_iff: "length (strip s) = 0 \<longleftrightarrow> (\<forall>c\<in>set s. is_space c)"
  by (simp add: strip_def all_dropWhile_iff)

lemma scan_patterns_iff:
  "scan_patterns ps t msg = (if \<exists>p\<in>set ps. sublist p t then Some msg else None)"
  by (induction ps) (simp_all add: str_contains_sublist)














subsection \<open>Response validation\<close>



subsection \<open>Stress prediction\<close>

lemma predict_stress_falls_back:
  "\<not> ready \<or> invoke m c q = Inl e \<Longrightarrow>
   predict_stress tomorrow ready invoke m c q =
     (let f = fallback_prediction m c q in
      \<lparr>pred_date = tomorrow, stressProbability = stress_probability f, pred_label = label f,
       pred_confidence = confidence f,
       basedOn = \<lparr>avgMoodScore = m, chatCount = c, avgQuizScore = q\<rparr>\<rparr>)"
  by (auto simp add: predict_stress_def predict_with_llm_def Let_def)

lemma fallback_prediction_examples:
  "fallback_prediction 1 15 12 =
     \<lparr>stress_probability = 1, label = ''High'', confidence = 13 / 20\<rparr>"
  "fallback_prediction 5 0 60 =
     \<lparr>stress_probability = 0, label = ''Low'', confidence = 13 / 20\<rparr>"
  by code_simp+

text \<open>
  C3. With the model unavailable \<^verbatim>\<open>predict_stress\<close> returns the fallback: the weighted
  formula, clamped, rounded to two decimals, confidence \<open>0.65\<close>; the two examples of the
  claim come out as stated (\<open>fallback_prediction_examples\<close>). The label, however, is
  taken from the clamped probability before it is rounded, so the returned pair can
  disagree with the thresholds: for an average mood of \<open>2.04\<close>, no chat and a quiz
  score of \<open>12\<close> the formula gives \<open>0.696\<close>, the answer carries the probability \<open>0.7\<close>
  and the label \<^verbatim>\<open>Medium\<close>, where the thresholds applied to the returned probability
  give \<^verbatim>\<open>High\<close>.
\<close>

theorem fallback_label_precedes_rounding:
  "predict_stress ''2026-01-01'' False (\<lambda>m c q. Inl LLMError) (51 / 25) 0 12 =
     \<lparr>pred_date = ''2026-01-01'', stressProbability = 7 / 10, pred_label = ''Medium'',
      pred_confidence = 13 / 20,
      basedOn = \<lparr>avgMoodScore = 51 / 25, chatCount = 0, avgQuizScore = 12\<rparr>\<rparr>"
  by code_simp

text \<open>
  C6. When the model call returns a parsed prediction, the probability and the
  confidence of the answer are the model's values clamped to the interval from 0 to 1,
  and the label of the answer is computed from the clamped probability by the
  thresholds \<open>0.7\<close> and \<open>0.4\<close>; the label the model suggested does not occur in the
  answer.
\<close>

theorem llm_prediction_clamped_and_relabelled:
  assumes "invoke m c q = Inr pm"
  shows "let r = predict_stress tomorrow True invoke m c q in
           stressProbability r = max 0 (min 1 (stress_probability pm)) \<and>
           pred_confidence r = max 0 (min 1 (confidence pm)) \<and>
           0 \<le> stressProbability r \<and> stressProbability r \<le> 1 \<and>
           0 \<le> pred_confidence r \<and> pred_confidence r \<le> 1 \<and>
           pred_label r =
             (if 7 / 10 \<le> stressProbability r then ''High''
              else if 2 / 5 \<le> stressProbability r then ''Medium''
              else ''Low'')"
  using assms
  by (auto simp add: predict_stress_def predict_with_llm_def Let_def min_def max_def)

theorem llm_prediction_clamped_and_relabelled_witness:
  "(let r = predict_stress ''2026-01-01'' True
              (\<lambda>m c q. Inr \<lparr>stress_probability = 3 / 2, label = ''Low'', confidence = - 1\<rparr>)
              2 8 24
    in stressProbability r = 1 \<and> pred_confidence r = 0 \<and> pred_label r = ''High'')"
  using llm_prediction_clamped_and_relabelled
    [of "\<lambda>m c q. Inr \<lparr>stress_probability = 3 / 2, label = ''Low'', confidence = - 1\<rparr>"
        2 8 24 "\<lparr>stress_probability = 3 / 2, label = ''Low'', confidence = - 1\<rparr>"
        "''2026-01-01''"]
  by (simp add: Let_def)

subsection \<open>Chat sessions\<close>




lemma end_session_marks_ended:
  assumes "db_initialised sv" "\<not> store_fails sv MetadataUpdate"
    "session_metadata fs (user_id, sid) = Some md"
  shows "\<exists>fs'. end_session sv fs user_id sid = Inr (True, fs') \<and>
           map_option status (session_metadata fs' (user_id, sid)) = Some ''ended''"
  using assms by (simp add: end_session_def)

lemma validate_gemini_response_None_iff:
  "validate_gemini_response r = None \<longleftrightarrow> (\<forall>c\<in>set r. is_space c)"
  unfolding validate_gemini_response_def Let_def scan_patterns_iff strip_empty_iff
  by auto

text \<open>
  C9. For a message that passes validation and a session that resolves: when the call
  of the chain raises, or returns an empty or whitespace-only text, the handler answers
  201 with a fixed fallback sentence as the assistant's reply (one sentence for an
  exception, another for an empty text).
\<close>

theorem generation_failure_still_succeeds:
  assumes "strip m \<noteq> []" and "length (strip m) \<le> 1000"
    and "load_session sv fs st tok user_id = (Some (sid, ch, hist), st1)"
    and "(\<exists>e. chat_invoke sv ch (strip m) hist = Inl e) \<or>
         (\<exists>r. chat_invoke sv ch (strip m) hist = Inr r \<and> (\<forall>c\<in>set r. is_space c))"
  shows "\<exists>body st'.
           send_chat_message sv fs st
             (Some \<lparr>payload_message = Some m, payload_session_id = tok\<rparr>) user_id =
             (Success 201 body, st') \<and>
           user_message body = strip m \<and>
           reply_session_id body = sid \<and>
           ai_response body =
             (case chat_invoke sv ch (strip m) hist of
                Inl e \<Rightarrow> connection_fallback
              | Inr r \<Rightarrow> empty_reply_fallback)"
  using assms
  by (auto simp add: send_chat_message_def generate_chat_response_def Let_def
      validate_gemini_response_None_iff [symmetric] split: option.splits)

theorem generation_failure_still_succeeds_witness:
  "(\<exists>body st'.
      send_chat_message (example_services\<lparr>chat_invoke := (\<lambda>ch m h. Inl LLMError)\<rparr>)
        empty_firestore empty_chat_state
        (Some \<lparr>payload_message = Some ''I feel anxious'', payload_session_id = None\<rparr>) ''u1'' =
        (Success 201 body, st') \<and>
      ai_response body = connection_fallback) \<and>
   (\<exists>body st'.
      send_chat_message (example_services\<lparr>chat_invoke := (\<lambda>ch m h. Inr ''  '')\<rparr>)
        empty_firestore empty_chat_state
        (Some \<lparr>payload_message = Some ''I feel anxious'', payload_session_id = None\<rparr>) ''u1'' =
        (Success 201 body, st') \<and>
      ai_response body = empty_reply_fallback)"
proof -
  define down where "down = example_services\<lparr>chat_invoke := (\<lambda>ch m h. Inl LLMError)\<rparr>"
  define blank where "blank = example_services\<lparr>chat_invoke := (\<lambda>ch m h. Inr ''  '')\<rparr>"
  have m: "strip ''I feel anxious'' = ''I feel anxious''"
    by (simp add: strip_def is_space_def)
  have l1: "\<exists>st1. load_session down empty_firestore empty_chat_state None ''u1'' =
              (Some (''session-1'', Chain (None, []), []), st1)"
    by (simp add: down_def load_session_def create_chain_for_user_def get_user_profile_def
        get_last_daily_mood_logs_def create_conversation_chain_def build_user_context_def
        example_services_def empty_firestore_def empty_chat_state_def Let_def)
  have l2: "\<exists>st1. load_session blank empty_firestore empty_chat_state None ''u1'' =
              (Some (''session-1'', Chain (None, []), []), st1)"
    by (simp add: blank_def load_session_def create_chain_for_user_def get_user_profile_def
        get_last_daily_mood_logs_def create_conversation_chain_def build_user_context_def
        example_services_def empty_firestore_def empty_chat_state_def Let_def)
  from l1 obtain s1 where s1: "load_session down empty_firestore empty_chat_state None ''u1'' =
              (Some (''session-1'', Chain (None, []), []), s1)" ..
  from l2 obtain s2 where s2: "load_session blank empty_firestore empty_chat_state None ''u1'' =
              (Some (''session-1'', Chain (None, []), []), s2)" ..
  have w1: "\<exists>body st'.
      send_chat_message down empty_firestore empty_chat_state
        (Some \<lparr>payload_message = Some ''I feel anxious'', payload_session_id = None\<rparr>) ''u1'' =
        (Success 201 body, st') \<and> ai_response body = connection_fallback"
    using generation_failure_still_succeeds [of "''I feel anxious''" down empty_firestore
        empty_chat_state None "''u1''" "''session-1''" "Chain (None, [])" "[]" s1] s1
    by (auto simp add: m down_def)
  have w2: "\<exists>body st'.
      send_chat_message blank empty_firestore empty_chat_state
        (Some \<lparr>payload_message = Some ''I feel anxious'', payload_session_id = None\<rparr>) ''u1'' =
        (Success 201 body, st') \<and> ai_response body = empty_reply_fallback"
    using generation_failure_still_succeeds [of "''I feel anxious''" blank empty_firestore
        empty_chat_state None "''u1''" "''session-1''" "Chain (None, [])" "[]" s2] s2
    by (auto simp add: m blank_def is_space_def)
  show ?thesis using w1 w2 unfolding down_def blank_def by simp
qed

subsection \<open>Resolving a session\<close>

lemma load_session_history:
  assumes "load_session sv fs st (Some session_id) user_id = (Some (sid, ch, history), st')"
    and "session_id \<noteq> []" and "\<not> store_fails sv MessagesQuery"
  shows "history =
           to_messages
             (take 25 (sort_key (\<lambda>d. (timestamp d, msg_id d))
                (messages fs (user_id, session_id))))"
  using assms
  by (auto simp add: load_session_def load_conversation_memory_def query_messages_def
      Let_def split: if_splits sum.splits option.splits)

text \<open>
  C1. The history query orders the messages by ascending time stamp and limits the
  result to 25, so for a session with more than 25 stored messages the history given to
  reply generation is the oldest 25, not the most recent 25: of the twenty-six messages
  \<open>A\<close> to \<open>Z\<close> the handler replays \<open>A\<close> to \<open>Y\<close> and never sees \<open>Z\<close>, the latest
  reply. The order is chronological and the entries are role-tagged
  (\<open>load_session_history\<close>).
\<close>

theorem load_session_replays_oldest_messages:
  "map_option (\<lambda>(sid, ch, history). history)
     (fst (load_session example_services
             (empty_firestore\<lparr>messages := (\<lambda>key. example_thread)\<rparr>)
             empty_chat_state (Some ''s1'') ''u1'')) =
   Some [HumanMessage ''A'', AIMessage ''B'', HumanMessage ''C'', AIMessage ''D'',
         HumanMessage ''E'', AIMessage ''F'', HumanMessage ''G'', AIMessage ''H'',
         HumanMessage ''I'', AIMessage ''J'', HumanMessage ''K'', AIMessage ''L'',
         HumanMessage ''M'', AIMessage ''N'', HumanMessage ''O'', AIMessage ''P'',
         HumanMessage ''Q'', AIMessage ''R'', HumanMessage ''S'', AIMessage ''T'',
         HumanMessage ''U'', AIMessage ''V'', HumanMessage ''W'', AIMessage ''X'',
         HumanMessage ''Y'']"
  by code_simp











subsection \<open>Daily quiz\<close>

lemma py_max_eq: "xs \<noteq> [] \<Longrightarrow> py_max xs = Some (Max (set xs))"
proof (cases xs)
  case Nil
  then show "xs \<noteq> [] \<Longrightarrow> ?thesis" by simp
next
  case (Cons a as)
  then show ?thesis using Max.set_eq_fold [of a as] by simp
qed

lemma py_min_eq: "xs \<noteq> [] \<Longrightarrow> py_min xs = Some (Min (set xs))"
proof (cases xs)
  case Nil
  then show "xs \<noteq> [] \<Longrightarrow> ?thesis" by simp
next
  case (Cons a as)
  then show ?thesis using Min.set_eq_fold [of a as] by simp
qed

lemma py_index_first:
  "x \<in> set xs \<Longrightarrow>
   \<exists>i. py_index xs x = Some i \<and> i < length xs \<and> xs ! i = x \<and> (\<forall>j<i. xs ! j \<noteq> x)"
proof (induction xs)
  case Nil
  then show ?case by simp
next
  case (Cons y ys)
  show ?case
  proof (cases "y = x")
    case True
    then show ?thesis by simp
  next
    case False
    with Cons.prems have "x \<in> set ys" by simp
    from Cons.IH [OF this] obtain i where
      i: "py_index ys x = Some i" "i < length ys" "ys ! i = x" "\<forall>j<i. ys ! j \<noteq> x"
      by blast
    have "\<forall>j<Suc i. (y # ys) ! j \<noteq> x"
      using False i(4) by (auto simp add: less_Suc_eq_0_disj)
    with False i show ?thesis by simp
  qed
qed

lemma high_low_points_first:
  assumes "length xs = 12"
  shows "\<exists>i k. i < 12 \<and> k < 12 \<and>
           high_low_points xs =
             Some (\<lparr>question_id = all_questions ! i, score = xs ! i\<rparr>,
                   \<lparr>question_id = all_questions ! k, score = xs ! k\<rparr>) \<and>
           (\<forall>j<12. xs ! j \<le> xs ! i) \<and> (\<forall>j<i. xs ! j < xs ! i) \<and>
           (\<forall>j<12. xs ! k \<le> xs ! j) \<and> (\<forall>j<k. xs ! k < xs ! j)"
proof -
  from assms have ne: "xs \<noteq> []" by auto
  have inmax: "Max (set xs) \<in> set xs" using ne by simp
  have inmin: "Min (set xs) \<in> set xs" using ne by simp
  from py_index_first [OF inmax] obtain i where
    i: "py_index xs (Max (set xs)) = Some i" "i < length xs" "xs ! i = Max (set xs)"
       "\<forall>j<i. xs ! j \<noteq> Max (set xs)" by blast
  from py_index_first [OF inmin] obtain k where
    k: "py_index xs (Min (set xs)) = Some k" "k < length xs" "xs ! k = Min (set xs)"
       "\<forall>j<k. xs ! j \<noteq> Min (set xs)" by blast
  have le_max: "\<forall>j<12. xs ! j \<le> xs ! i"
    using i(3) assms by simp
  have ge_min: "\<forall>j<12. xs ! k \<le> xs ! j"
    using k(3) assms by simp
  have lt_max: "\<forall>j<i. xs ! j < xs ! i"
  proof (intro allI impI)
    fix j assume "j < i"
    then have "xs ! j \<noteq> xs ! i" "xs ! j \<le> xs ! i"
      using i le_max assms by auto
    then show "xs ! j < xs ! i" by simp
  qed
  have gt_min: "\<forall>j<k. xs ! k < xs ! j"
  proof (intro allI impI)
    fix j assume "j < k"
    then have "xs ! j \<noteq> xs ! k" "xs ! k \<le> xs ! j"
      using k ge_min assms by auto
    then show "xs ! k < xs ! j" by simp
  qed
  have "high_low_points xs =
          Some (\<lparr>question_id = all_questions ! i, score = xs ! i\<rparr>,
                \<lparr>question_id = all_questions ! k, score = xs ! k\<rparr>)"
    using i(1,2) k(1,2) assms ne
    by (simp add: high_low_points_def py_max_eq py_min_eq all_questions_def)
  with i(2) k(2) assms le_max lt_max ge_min gt_min show ?thesis by auto
qed

lemma validate_quiz_Inl:
  "validate_quiz request = Inl answer \<Longrightarrow> \<exists>code err msg. answer = QuizFailure code err msg"
  by (auto simp add: validate_quiz_def Let_def split: option.splits if_splits)

lemma submit_daily_quiz_success:
  assumes "submit_daily_quiz sv fs request user_id = (QuizSuccess code body, fs')"
  shows "\<exists>p c r d hp lp res fs1.
           validate_quiz request = Inr (p, c, r, d) \<and>
           high_low_points (all_scores_of c r d) = Some (hp, lp) \<and>
           upsert_daily_mood_log sv fs user_id (build_daily_doc p c r d hp lp) =
             Inr (Some res, fs1) \<and>
           weekly_aggregation sv fs1 user_id = Inr (weekly_dass body, fs') \<and>
           log_id body = doc_id res \<and> high_point body = hp \<and> low_point body = lp \<and>
           code = 201"
proof (cases "validate_quiz request")
  case (Inl answer)
  with validate_quiz_Inl [OF Inl] assms show ?thesis
    by (auto simp add: submit_daily_quiz_def)
next
  case (Inr v)
  obtain p c r d where v: "v = (p, c, r, d)" by (cases v) auto
  show ?thesis
    using assms Inr v
    by (auto simp add: submit_daily_quiz_def split: option.splits sum.splits prod.splits)
qed





lemma upsert_daily_mood_log_saved:
  assumes "upsert_daily_mood_log sv fs user_id doc = Inr (Some res, fs1)"
  shows "doc_id res = user_id @ ''_'' @ date_or_today sv (log_date doc)"
    and "\<exists>stored.
           user_mood_logs fs1 = set_document (doc_id res) stored (user_mood_logs fs) \<and>
           log_date stored = Some (date_or_today sv (log_date doc)) \<and>
           log_core_scores stored = log_core_scores doc \<and>
           log_rotating_scores stored = log_rotating_scores doc \<and>
           log_dass_today stored = log_dass_today doc \<and>
           log_high_point stored = log_high_point doc \<and>
           log_low_point stored = log_low_point doc \<and>
           core_avg stored = core_avg doc \<and>
           rotating_avg stored = rotating_avg doc \<and>
           log_additional_notes stored = log_additional_notes doc \<and>
           log_user_id stored = user_id \<and>
           submitted_at stored = utcnow sv"
    and "user_weekly_dass fs1 = user_weekly_dass fs"
    and "db_initialised sv"
  using assms
  by (auto simp add: upsert_daily_mood_log_def Let_def split: if_splits)

lemma weekly_aggregation_keeps_logs:
  "weekly_aggregation sv fs user_id = Inr (w, fs') \<Longrightarrow>
   user_mood_logs fs' = user_mood_logs fs"
  by (auto simp add: weekly_aggregation_def save_weekly_dass_totals_def Let_def
      split: sum.splits option.splits if_splits bool.splits prod.splits)

lemma validate_quiz_valid:
  assumes "payload_core_scores p = Some c" and "payload_rotating_scores p = Some r"
    and "payload_dass_today p = Some d" and "length (scores r) = 5"
    and "\<forall>s\<in>set ([mood c, energy c, sleep c, stress c] @ scores r @
                    [depression d, anxiety d, dass_stress d]). 1 \<le> s \<and> s \<le> 5"
  shows "validate_quiz (Some p) = Inr (p, c, r, d)"
  using assms
  by (simp add: validate_quiz_def Let_def valid_score_def list_all_iff)

lemma weekly_aggregation_raises:
  assumes "db_initialised sv" and "weekly_aggregation sv fs user_id = Inl e"
  shows "e = KeyError"
proof -
  have c: "get_daily_mood_logs_count sv fs user_id \<noteq> Inl e'" for e'
    using assms(1) by (simp add: get_daily_mood_logs_count_def)
  have l: "get_last_daily_mood_logs sv fs user_id 7 \<noteq> Inl e'" for e'
    using assms(1) by (simp add: get_last_daily_mood_logs_def)
  have x: "weekly_dass_exists sv fs user_id a b \<noteq> Inl e'" for a b e'
    using assms(1) by (simp add: weekly_dass_exists_def)
  have s: "save_weekly_dass_totals sv fs user_id a b t1 t2 t3 \<noteq> Inl e'" for a b t1 t2 t3 e'
    using assms(1) by (simp add: save_weekly_dass_totals_def Let_def)
  show ?thesis
    using assms(2) c l x s
    unfolding weekly_aggregation_def Let_def
    by (auto split: sum.splits option.splits if_splits bool.splits prod.splits)
qed


lemma submit_daily_quiz_answer:
  assumes "validate_quiz (Some p) = Inr (p, c, r, d)"
    and "high_low_points (all_scores_of c r d) = Some (hp, lp)"
  shows "case fst (submit_daily_quiz sv fs (Some p) user_id) of
           QuizSuccess code body \<Rightarrow>
             code = 201 \<and> high_point body = hp \<and> low_point body = lp \<and>
             log_id body = user_id @ ''_'' @ date_or_today sv (payload_date p)
         | QuizFailure code err msg \<Rightarrow>
             code = 500 \<and> err = ''Database error'' \<and> store_fails sv MoodSet
         | ServerError e \<Rightarrow>
             (\<not> db_initialised sv \<and> e = RuntimeError) \<or>
             (db_initialised sv \<and> \<not> store_fails sv MoodSet \<and> e = KeyError)"
proof (cases "db_initialised sv")
  case False
  then show ?thesis
    using assms by (simp add: submit_daily_quiz_def upsert_daily_mood_log_def)
next
  case db: True
  show ?thesis
  proof (cases "store_fails sv MoodSet")
    case True
    then show ?thesis
      using assms db by (simp add: submit_daily_quiz_def upsert_daily_mood_log_def)
  next
    case False
    define fs1 where
      "fs1 = snd (projr (upsert_daily_mood_log sv fs user_id
                 (build_daily_doc p c r d hp lp)))"
    have up: "upsert_daily_mood_log sv fs user_id (build_daily_doc p c r d hp lp) =
        Inr (Some \<lparr>doc_id = user_id @ ''_'' @ date_or_today sv (payload_date p),
                   result_date = date_or_today sv (payload_date p),
                   operation = ''upsert''\<rparr>, fs1)"
      unfolding fs1_def using db False
      by (simp add: upsert_daily_mood_log_def Let_def build_daily_doc_def)
    show ?thesis
    proof (cases "weekly_aggregation sv fs1 user_id")
      case (Inl e)
      with weekly_aggregation_raises [OF db Inl] show ?thesis
        using assms db False up by (simp add: submit_daily_quiz_def)
    next
      case (Inr v)
      then show ?thesis
        using assms up by (cases v) (simp add: submit_daily_quiz_def)
    qed
  qed
qed

text \<open>
  C5. For every valid quiz (the three sections present, five rotating scores, each
  of the twelve scores between 1 and 5) there are a first position of the maximum and a
  first position of the minimum among the twelve scores, laid out \<open>q1\<close> to \<open>q4\<close> core,
  \<open>q5\<close> to \<open>q9\<close> rotating, \<open>q10\<close> to \<open>q12\<close> clinical: no score exceeds the one at
  the first, none before it reaches it, and likewise for the minimum. The handler's
  computation yields the questions and scores at these two positions; a 201 answer
  carries them as high point and low point; no answer is a validation error; the only
  other answers are the 500 of a failed save and the 500 of an exception (no store
  client, or a stored score outside the remap table during the weekly aggregation). The
  scores \<open>3,5,1,4,2,3,3,3,3,2,2,2\<close> give \<open>q2\<close> with 5 and \<open>q3\<close> with 1.
\<close>

theorem quiz_high_low_points:
  assumes "payload_core_scores payload = Some c"
    and "payload_rotating_scores payload = Some r"
    and "payload_dass_today payload = Some d"
    and "length (scores r) = 5"
    and "\<forall>s\<in>set ([mood c, energy c, sleep c, stress c] @ scores r @
                    [depression d, anxiety d, dass_stress d]). 1 \<le> s \<and> s \<le> 5"
  shows "(let all_scores =
                [mood c, energy c, sleep c, stress c] @ scores r @
                [depression d, anxiety d, dass_stress d];
              questions =
                [''q1'', ''q2'', ''q3'', ''q4'', ''q5'', ''q6'', ''q7'', ''q8'', ''q9'',
                 ''q10'', ''q11'', ''q12'']
          in
            \<exists>i<12. \<exists>k<12.
              (\<forall>j<12. all_scores ! j \<le> all_scores ! i) \<and>
              (\<forall>j<i. all_scores ! j < all_scores ! i) \<and>
              (\<forall>j<12. all_scores ! k \<le> all_scores ! j) \<and>
              (\<forall>j<k. all_scores ! k < all_scores ! j) \<and>
              high_low_points all_scores =
                Some (\<lparr>question_id = questions ! i, score = all_scores ! i\<rparr>,
                      \<lparr>question_id = questions ! k, score = all_scores ! k\<rparr>) \<and>
              (case fst (submit_daily_quiz sv fs (Some payload) user_id) of
                 QuizSuccess code body \<Rightarrow>
                   code = 201 \<and>
                   high_point body =
                     \<lparr>question_id = questions ! i, score = all_scores ! i\<rparr> \<and>
                   low_point body =
                     \<lparr>question_id = questions ! k, score = all_scores ! k\<rparr>
               | QuizFailure code err msg \<Rightarrow>
                   code = 500 \<and> err = ''Database error'' \<and> store_fails sv MoodSet
               | ServerError e \<Rightarrow>
                   (\<not> db_initialised sv \<and> e = RuntimeError) \<or>
                   (db_initialised sv \<and> \<not> store_fails sv MoodSet \<and> e = KeyError))) \<and>
         high_low_points [3, 5, 1, 4, 2, 3, 3, 3, 3, 2, 2, 2] =
           Some (\<lparr>question_id = ''q2'', score = 5\<rparr>, \<lparr>question_id = ''q3'', score = 1\<rparr>)"
proof -
  define all_scores where
    "all_scores = [mood c, energy c, sleep c, stress c] @ scores r @
                  [depression d, anxiety d, dass_stress d]"
  have all: "all_scores_of c r d = all_scores"
    by (simp add: all_scores_of_def all_scores_def)
  have v: "validate_quiz (Some payload) = Inr (payload, c, r, d)"
    using assms by (rule validate_quiz_valid)
  have l12: "length all_scores = 12"
    using assms(4) by (simp add: all_scores_def)
  from high_low_points_first [OF l12] obtain i k where
    ik: "i < 12" "k < 12"
      "high_low_points all_scores =
         Some (\<lparr>question_id = all_questions ! i, score = all_scores ! i\<rparr>,
               \<lparr>question_id = all_questions ! k, score = all_scores ! k\<rparr>)"
      "\<forall>j<12. all_scores ! j \<le> all_scores ! i" "\<forall>j<i. all_scores ! j < all_scores ! i"
      "\<forall>j<12. all_scores ! k \<le> all_scores ! j" "\<forall>j<k. all_scores ! k < all_scores ! j"
    by blast
  note answer = submit_daily_quiz_answer [OF v, unfolded all, OF ik(3), where sv = sv and fs = fs and user_id = user_id]
  have answer': "case fst (submit_daily_quiz sv fs (Some payload) user_id) of
                 QuizSuccess code body \<Rightarrow>
                   code = 201 \<and>
                   high_point body =
                     \<lparr>question_id = all_questions ! i, score = all_scores ! i\<rparr> \<and>
                   low_point body =
                     \<lparr>question_id = all_questions ! k, score = all_scores ! k\<rparr>
               | QuizFailure code err msg \<Rightarrow>
                   code = 500 \<and> err = ''Database error'' \<and> store_fails sv MoodSet
               | ServerError e \<Rightarrow>
                   (\<not> db_initialised sv \<and> e = RuntimeError) \<or>
                   (db_initialised sv \<and> \<not> store_fails sv MoodSet \<and> e = KeyError)"
    using answer
    by (cases "fst (submit_daily_quiz sv fs (Some payload) user_id)") simp_all
  have ex: "high_low_points [3, 5, 1, 4, 2, 3, 3, 3, 3, 2, 2, 2] =
           Some (\<lparr>question_id = ''q2'', score = 5\<rparr>, \<lparr>question_id = ''q3'', score = 1\<rparr>)"
    by (simp add: high_low_points_def all_questions_def)
  have "\<exists>i<12. \<exists>k<12.
              (\<forall>j<12. all_scores ! j \<le> all_scores ! i) \<and>
              (\<forall>j<i. all_scores ! j < all_scores ! i) \<and>
              (\<forall>j<12. all_scores ! k \<le> all_scores ! j) \<and>
              (\<forall>j<k. all_scores ! k < all_scores ! j) \<and>
              high_low_points all_scores =
                Some (\<lparr>question_id = all_questions ! i, score = all_scores ! i\<rparr>,
                      \<lparr>question_id = all_questions ! k, score = all_scores ! k\<rparr>) \<and>
              (case fst (submit_daily_quiz sv fs (Some payload) user_id) of
                 QuizSuccess code body \<Rightarrow>
                   code = 201 \<and>
                   high_point body =
                     \<lparr>question_id = all_questions ! i, score = all_scores ! i\<rparr> \<and>
                   low_point body =
                     \<lparr>question_id = all_questions ! k, score = all_scores ! k\<rparr>
               | QuizFailure code err msg \<Rightarrow>
                   code = 500 \<and> err = ''Database error'' \<and> store_fails sv MoodSet
               | ServerError e \<Rightarrow>
                   (\<not> db_initialised sv \<and> e = RuntimeError) \<or>
                   (db_initialised sv \<and> \<not> store_fails sv MoodSet \<and> e = KeyError))"
    using ik answer' by blast
  with ex show ?thesis
    unfolding Let_def all_scores_def all_questions_def by blast
qed

theorem quiz_high_low_points_witness:
  "fst (submit_daily_quiz example_services empty_firestore (Some example_payload) ''u1'') =
     QuizSuccess 201
       \<lparr>log_id = ''u1_2024-03-08'',
        high_point = \<lparr>question_id = ''q2'', score = 5\<rparr>,
        low_point = \<lparr>question_id = ''q3'', score = 1\<rparr>,
        weekly_dass = None\<rparr>"
proof -
  have ev: "fst (submit_daily_quiz example_services empty_firestore (Some example_payload)
                   ''u1'') =
     QuizSuccess 201
       \<lparr>log_id = ''u1_2024-03-08'',
        high_point = \<lparr>question_id = ''q2'', score = 5\<rparr>,
        low_point = \<lparr>question_id = ''q3'', score = 1\<rparr>,
        weekly_dass = None\<rparr>"
    by code_simp
  show ?thesis
    using quiz_high_low_points
      [where payload = example_payload
         and c = "\<lparr>mood = 3, energy = 5, sleep = 1, stress = 4\<rparr>"
         and r = "\<lparr>domain_name = ''social'', scores = [2, 3, 3, 3, 3]\<rparr>"
         and d = "\<lparr>depression = 2, anxiety = 2, dass_stress = 2\<rparr>"
         and sv = example_services and fs = empty_firestore and user_id = "''u1''"] ev
    by (simp add: example_payload_def)
qed






subsection \<open>Weekly aggregation\<close>

lemma to_dass_scale_Some:
  "to_dass_scale s = Some v \<Longrightarrow> (1 \<le> s \<and> s \<le> 5) \<and> v = spec_remap s"
  by (auto simp add: to_dass_scale_def spec_remap_def split: if_splits)

lemma dass_sum_Some:
  "dass_sum xs = Some t \<Longrightarrow>
   list_all (\<lambda>s. 1 \<le> s \<and> s \<le> 5) xs \<and> t = sum_list (map spec_remap xs)"
proof (induction xs arbitrary: t)
  case Nil
  then show ?case by simp
next
  case (Cons s ss)
  from Cons.prems obtain v t' where
    v: "to_dass_scale s = Some v" and t': "dass_sum ss = Some t'" and t: "t = v + t'"
    by (auto split: option.splits)
  from to_dass_scale_Some [OF v] Cons.IH [OF t'] t show ?case by simp
qed

lemma dass_total_Some:
  "dass_total xs = Some t \<Longrightarrow>
   list_all (\<lambda>s. 1 \<le> s \<and> s \<le> 5) xs \<and> t = 2 * sum_list (map spec_remap xs)"
  using dass_sum_Some [of xs] by (auto simp add: dass_total_def)

lemma py_min_dates:
  "(case py_min ds of None \<Rightarrow> a | Some d \<Rightarrow> d) = (if ds = [] then a else Min (set ds))"
  by (cases ds) (simp_all add: Min.set_eq_fold [symmetric] del: set_simps)

lemma py_max_dates:
  "(case py_max ds of None \<Rightarrow> a | Some d \<Rightarrow> d) = (if ds = [] then a else Max (set ds))"
  by (cases ds) (simp_all add: Max.set_eq_fold [symmetric] del: set_simps)

lemma weekly_aggregation_working:
  assumes db: "db_initialised sv"
    and nf: "\<not> store_fails sv MoodCountQuery" "\<not> store_fails sv MoodLastQuery"
      "\<not> store_fails sv WeeklyExistsQuery" "\<not> store_fails sv WeeklyAdd"
    and agg: "weekly_aggregation sv fs user_id = Inr (w, fs')"
  shows
    "let own = filter (\<lambda>(k, d). log_user_id d = user_id) (user_mood_logs fs);
         total_count = length own;
         last_7 = take 7 (rev (sort_key (\<lambda>(k, d). (submitted_at d, k)) own));
         dates = filter (\<lambda>d. d \<noteq> []) (map (\<lambda>(k, e). extract_date sv e) last_7);
         week_start' = (if dates = [] then today sv else Min (set dates));
         week_end' = (if dates = [] then today sv else Max (set dates))
     in
       if 0 < total_count \<and> total_count mod 7 = 0 \<and>
          \<not> (\<exists>a\<in>set (user_weekly_dass fs).
               w_user_id a = user_id \<and> week_start a = week_start' \<and> week_end a = week_end')
       then
         length last_7 = 7 \<and>
         list_all (\<lambda>s. 1 \<le> s \<and> s \<le> 5)
           (map (\<lambda>(k, e). depression (log_dass_today e)) last_7) \<and>
         list_all (\<lambda>s. 1 \<le> s \<and> s \<le> 5)
           (map (\<lambda>(k, e). anxiety (log_dass_today e)) last_7) \<and>
         list_all (\<lambda>s. 1 \<le> s \<and> s \<le> 5)
           (map (\<lambda>(k, e). dass_stress (log_dass_today e)) last_7) \<and>
         user_weekly_dass fs' =
           user_weekly_dass fs @
           [\<lparr>w_id = auto_id sv,
             w_user_id = user_id,
             week_start = week_start',
             week_end = week_end',
             depression_total =
               2 * sum_list (map spec_remap
                      (map (\<lambda>(k, e). depression (log_dass_today e)) last_7)),
             anxiety_total =
               2 * sum_list (map spec_remap
                      (map (\<lambda>(k, e). anxiety (log_dass_today e)) last_7)),
             stress_total =
               2 * sum_list (map spec_remap
                      (map (\<lambda>(k, e). dass_stress (log_dass_today e)) last_7)),
             calculated_at = utcnow sv\<rparr>]
       else w = None \<and> user_weekly_dass fs' = user_weekly_dass fs"
proof -
  define own where "own = filter (\<lambda>(k, d). log_user_id d = user_id) (user_mood_logs fs)"
  define last_7 where "last_7 = take 7 (rev (sort_key (\<lambda>(k, d). (submitted_at d, k)) own))"
  define dates where
    "dates = filter (\<lambda>d. d \<noteq> []) (map (\<lambda>(k, e). extract_date sv e) last_7)"
  define ws where "ws = (if dates = [] then today sv else Min (set dates))"
  define we where "we = (if dates = [] then today sv else Max (set dates))"
  have cnt: "get_daily_mood_logs_count sv fs user_id = Inr (length own)"
    using db nf by (simp add: get_daily_mood_logs_count_def own_def)
  have last: "get_last_daily_mood_logs sv fs user_id 7 = Inr last_7"
    using db nf by (simp add: get_last_daily_mood_logs_def own_def last_7_def)
  have len: "length last_7 = min 7 (length own)"
    by (simp add: last_7_def min.commute)
  have mn: "(case py_min dates of None \<Rightarrow> today sv | Some d \<Rightarrow> d) = ws"
    unfolding ws_def by (rule py_min_dates)
  have mx: "(case py_max dates of
               None \<Rightarrow> (case py_min dates of None \<Rightarrow> today sv | Some d \<Rightarrow> d)
             | Some d \<Rightarrow> d) = we"
    unfolding we_def py_max_dates py_min_dates by simp
  show ?thesis
  proof (cases "7 \<le> length own \<and> length own mod 7 = 0")
    case False
    then have "weekly_aggregation sv fs user_id = Inr (None, fs)"
      by (auto simp add: weekly_aggregation_def cnt last)
    with agg have "w = None" "fs' = fs" by simp_all
    moreover from False have "\<not> (0 < length own \<and> length own mod 7 = 0)"
      by presburger
    ultimately show ?thesis
      unfolding Let_def own_def [symmetric] by auto
  next
    case True
    then have l7: "length last_7 = 7" using len by simp
    from agg True l7 obtain dt an st where
      dt: "dass_total (map (\<lambda>(k, e). depression (log_dass_today e)) last_7) = Some dt" and
      an: "dass_total (map (\<lambda>(k, e). anxiety (log_dass_today e)) last_7) = Some an" and
      st: "dass_total (map (\<lambda>(k, e). dass_stress (log_dass_today e)) last_7) = Some st"
      by (auto simp add: weekly_aggregation_def cnt last split: option.splits)
    have ex: "weekly_dass_exists sv fs user_id ws we =
        Inr (\<exists>a\<in>set (user_weekly_dass fs).
               w_user_id a = user_id \<and> week_start a = ws \<and> week_end a = we)"
      using db nf by (auto simp add: weekly_dass_exists_def filter_empty_conv)
    show ?thesis
    proof (cases "\<exists>a\<in>set (user_weekly_dass fs).
               w_user_id a = user_id \<and> week_start a = ws \<and> week_end a = we")
      case True
      have "weekly_aggregation sv fs user_id = Inr (None, fs)"
        using \<open>7 \<le> length own \<and> length own mod 7 = 0\<close> l7
        by (simp add: weekly_aggregation_def cnt last dt an st dates_def [symmetric] mn mx ex
            Let_def True)
      with agg have "w = None" "fs' = fs" by simp_all
      with True show ?thesis
        unfolding Let_def own_def [symmetric] last_7_def [symmetric] dates_def [symmetric]
          ws_def [symmetric] we_def [symmetric]
        by simp
    next
      case False
      have "user_weekly_dass fs' = user_weekly_dass fs @
            [\<lparr>w_id = auto_id sv, w_user_id = user_id, week_start = ws,
              week_end = we, depression_total = dt, anxiety_total = an,
              stress_total = st, calculated_at = utcnow sv\<rparr>]"
        using \<open>7 \<le> length own \<and> length own mod 7 = 0\<close> l7 agg db nf
        by (auto simp add: weekly_aggregation_def cnt last dt an st dates_def [symmetric]
            mn mx ex Let_def save_weekly_dass_totals_def False split: if_splits)
      then have fs': "user_weekly_dass fs' = user_weekly_dass fs @
            [\<lparr>w_id = auto_id sv, w_user_id = user_id, week_start = ws,
              week_end = we, depression_total = dt, anxiety_total = an,
              stress_total = st, calculated_at = utcnow sv\<rparr>]" .
      from \<open>7 \<le> length own \<and> length own mod 7 = 0\<close>
      have pos: "0 < length own \<and> length own mod 7 = 0" by auto
      show ?thesis
        unfolding Let_def own_def [symmetric] last_7_def [symmetric] dates_def [symmetric]
          ws_def [symmetric] we_def [symmetric]
        using pos False l7 fs' dass_total_Some [OF dt] dass_total_Some [OF an]
          dass_total_Some [OF st]
        by simp
    qed
  qed
qed

text \<open>
  C4 (as amended). For a quiz that was saved (answer 201) in a request during which
  none of the count query, the query for the last seven logs, the existence query and
  the \<^verbatim>\<open>add\<close> call raises: let the count be the number of the user's daily logs after
  the save and let the last seven be the user's seven most recently submitted logs. A
  weekly record is added exactly when the count is a positive multiple of 7 and no
  weekly record of the user exists whose range is the least and the greatest date found
  in the last seven (today's date when none of them has a date); otherwise the weekly
  collection is unchanged. The record added has these two dates as its range, and each
  of its three totals is twice the sum, over the last seven, of the day's score mapped
  by \<open>1\<rightarrow>0, 2\<rightarrow>1, 3\<rightarrow>1, 4\<rightarrow>2, 5\<rightarrow>3\<close> (the scores are between 1 and 5).
\<close>

theorem weekly_aggregate_written_iff:
  assumes "submit_daily_quiz sv fs (Some payload) user_id = (QuizSuccess 201 body, fs')"
    and "\<not> store_fails sv MoodCountQuery" and "\<not> store_fails sv MoodLastQuery"
    and "\<not> store_fails sv WeeklyExistsQuery" and "\<not> store_fails sv WeeklyAdd"
  shows
    "let own = filter (\<lambda>(k, d). log_user_id d = user_id) (user_mood_logs fs');
         total_count = length own;
         last_7 = take 7 (rev (sort_key (\<lambda>(k, d). (submitted_at d, k)) own));
         dates =
           filter (\<lambda>d. d \<noteq> [])
             (map (\<lambda>(k, e).
                     case log_date e of
                       None \<Rightarrow> date_of sv (submitted_at e)
                     | Some d \<Rightarrow> if d = [] then date_of sv (submitted_at e) else d)
                last_7);
         week_start' = (if dates = [] then today sv else Min (set dates));
         week_end' = (if dates = [] then today sv else Max (set dates))
     in
       if 0 < total_count \<and> total_count mod 7 = 0 \<and>
          \<not> (\<exists>a\<in>set (user_weekly_dass fs).
               w_user_id a = user_id \<and> week_start a = week_start' \<and> week_end a = week_end')
       then
         length last_7 = 7 \<and>
         list_all (\<lambda>s. 1 \<le> s \<and> s \<le> 5)
           (map (\<lambda>(k, e). depression (log_dass_today e)) last_7) \<and>
         list_all (\<lambda>s. 1 \<le> s \<and> s \<le> 5)
           (map (\<lambda>(k, e). anxiety (log_dass_today e)) last_7) \<and>
         list_all (\<lambda>s. 1 \<le> s \<and> s \<le> 5)
           (map (\<lambda>(k, e). dass_stress (log_dass_today e)) last_7) \<and>
         user_weekly_dass fs' =
           user_weekly_dass fs @
           [\<lparr>w_id = auto_id sv,
             w_user_id = user_id,
             week_start = week_start',
             week_end = week_end',
             depression_total =
               2 * sum_list (map spec_remap
                      (map (\<lambda>(k, e). depression (log_dass_today e)) last_7)),
             anxiety_total =
               2 * sum_list (map spec_remap
                      (map (\<lambda>(k, e). anxiety (log_dass_today e)) last_7)),
             stress_total =
               2 * sum_list (map spec_remap
                      (map (\<lambda>(k, e). dass_stress (log_dass_today e)) last_7)),
             calculated_at = utcnow sv\<rparr>]
       else weekly_dass body = None \<and> user_weekly_dass fs' = user_weekly_dass fs"
proof -
  from submit_daily_quiz_success [OF assms(1)] obtain p c r d hp lp res fs1 where
    up: "upsert_daily_mood_log sv fs user_id (build_daily_doc p c r d hp lp) =
           Inr (Some res, fs1)" and
    w: "weekly_aggregation sv fs1 user_id = Inr (weekly_dass body, fs')"
    by blast
  have logs: "user_mood_logs fs1 = user_mood_logs fs'"
    using weekly_aggregation_keeps_logs [OF w] by simp
  have weekly: "user_weekly_dass fs1 = user_weekly_dass fs"
    using upsert_daily_mood_log_saved(3) [OF up] .
  have db: "db_initialised sv"
    using upsert_daily_mood_log_saved(4) [OF up] .
  show ?thesis
    using weekly_aggregation_working [OF db assms(2-5) w]
    unfolding logs weekly extract_date_def .
qed

theorem weekly_aggregate_written_iff_witness:
  "user_weekly_dass
     (snd (submit_daily_quiz example_services
             (empty_firestore\<lparr>user_mood_logs := example_week\<rparr>)
             (Some example_payload) ''u1'')) =
     [\<lparr>w_id = ''weekly-1'', w_user_id = ''u1'', week_start = ''2024-03-02'',
       week_end = ''2024-03-08'', depression_total = 16, anxiety_total = 14,
       stress_total = 14, calculated_at = 100\<rparr>]"
proof -
  define fs' where
    "fs' = snd (submit_daily_quiz example_services
                  (empty_firestore\<lparr>user_mood_logs := example_week\<rparr>)
                  (Some example_payload) ''u1'')"
  define body where
    "body = \<lparr>log_id = ''u1_2024-03-08'',
             high_point = \<lparr>question_id = ''q2'', score = 5\<rparr>,
             low_point = \<lparr>question_id = ''q3'', score = 1\<rparr>,
             weekly_dass =
               Some \<lparr>weekly_id = ''weekly-1'', result_week_start = ''2024-03-02'',
                     result_week_end = ''2024-03-08'', result_depression_total = 16,
                     result_anxiety_total = 14, result_stress_total = 14,
                     weekly_core_avg = Some (76 / 25),
                     weekly_rotating_avg = Some (297 / 100)\<rparr>\<rparr>"
  have "fst (submit_daily_quiz example_services
               (empty_firestore\<lparr>user_mood_logs := example_week\<rparr>)
               (Some example_payload) ''u1'') = QuizSuccess 201 body"
    unfolding body_def by code_simp
  then have ok: "submit_daily_quiz example_services
               (empty_firestore\<lparr>user_mood_logs := example_week\<rparr>)
               (Some example_payload) ''u1'' = (QuizSuccess 201 body, fs')"
    unfolding fs'_def by (metis prod.collapse)
  have nf: "\<not> store_fails example_services MoodCountQuery"
    "\<not> store_fails example_services MoodLastQuery"
    "\<not> store_fails example_services WeeklyExistsQuery"
    "\<not> store_fails example_services WeeklyAdd"
    by (simp_all add: example_services_def)
  have ev: "user_weekly_dass fs' =
     [\<lparr>w_id = ''weekly-1'', w_user_id = ''u1'', week_start = ''2024-03-02'',
       week_end = ''2024-03-08'', depression_total = 16, anxiety_total = 14,
       stress_total = 14, calculated_at = 100\<rparr>]"
    unfolding fs'_def by code_simp
  show ?thesis
    using weekly_aggregate_written_iff [OF ok nf] ev
    unfolding fs'_def by blast
qed

text \<open>
  C4 as stated fails when a store query raises inside its service. With the count query
  raising, the seventh log of the user is saved and answered 201, no weekly record
  exists for its week, and none is written. With the existence query raising, a second
  weekly record is written for a range that already has one.
\<close>

theorem weekly_aggregate_store_failure_counterexample:
  "fst (submit_daily_quiz (example_services\<lparr>store_fails := (\<lambda>call. call = MoodCountQuery)\<rparr>)
          (empty_firestore\<lparr>user_mood_logs := example_week\<rparr>)
          (Some example_payload) ''u1'') =
     QuizSuccess 201
       \<lparr>log_id = ''u1_2024-03-08'',
        high_point = \<lparr>question_id = ''q2'', score = 5\<rparr>,
        low_point = \<lparr>question_id = ''q3'', score = 1\<rparr>,
        weekly_dass = None\<rparr> \<and>
   length (filter (\<lambda>(k, d). log_user_id d = ''u1'')
     (user_mood_logs
        (snd (submit_daily_quiz
                (example_services\<lparr>store_fails := (\<lambda>call. call = MoodCountQuery)\<rparr>)
                (empty_firestore\<lparr>user_mood_logs := example_week\<rparr>)
                (Some example_payload) ''u1'')))) = 7 \<and>
   user_weekly_dass
     (snd (submit_daily_quiz
             (example_services\<lparr>store_fails := (\<lambda>call. call = MoodCountQuery)\<rparr>)
             (empty_firestore\<lparr>user_mood_logs := example_week\<rparr>)
             (Some example_payload) ''u1'')) = [] \<and>
   user_weekly_dass
     (snd (submit_daily_quiz
             (example_services\<lparr>store_fails := (\<lambda>call. call = WeeklyExistsQuery),
                               auto_id := ''weekly-2'', utcnow := 200\<rparr>)
             (empty_firestore
                \<lparr>user_mood_logs := example_week,
                 user_weekly_dass :=
                   [\<lparr>w_id = ''weekly-1'', w_user_id = ''u1'', week_start = ''2024-03-02'',
                     week_end = ''2024-03-08'', depression_total = 16, anxiety_total = 14,
                     stress_total = 14, calculated_at = 100\<rparr>]\<rparr>)
             (Some example_payload) ''u1'')) =
     [\<lparr>w_id = ''weekly-1'', w_user_id = ''u1'', week_start = ''2024-03-02'',
       week_end = ''2024-03-08'', depression_total = 16, anxiety_total = 14,
       stress_total = 14, calculated_at = 100\<rparr>,
      \<lparr>w_id = ''weekly-2'', w_user_id = ''u1'', week_start = ''2024-03-02'',
       week_end = ''2024-03-08'', depression_total = 16, anxiety_total = 14,
       stress_total = 14, calculated_at = 200\<rparr>]"
  by code_simp

end
